theory Spec2Isabelle
  imports Complex_Main "HOL-Library.AList"
begin

section \<open>JavaScript numbers\<close>

text \<open>
  A JavaScript number is an IEEE 754 binary64 value: NaN, the two infinities, the two
  zeros, or a non-zero finite double.  A finite double is kept as the rational it denotes;
  \<open>Fin 0\<close> is \<open>+0\<close> and \<open>NegZero\<close> is \<open>-0\<close>.  Arithmetic computes the exact rational
  result and rounds it to the nearest double, ties to even, as the language prescribes.
\<close>

datatype jsnum = NaN | PosInf | NegInf | NegZero | Fin rat

definition round_half_even :: "rat \<Rightarrow> int" where
  "round_half_even x =
     (let f = \<lfloor>x\<rfloor>; d = x - of_int f
      in if d < 1 / 2 then f else if 1 / 2 < d then f + 1 else if even f then f else f + 1)"

fun bitlen :: "nat \<Rightarrow> nat" where
  "bitlen n = (if n = 0 then 0 else Suc (bitlen (n div 2)))"

declare bitlen.simps [simp del]

text \<open>\<open>ilog2 m\<close> is the binary exponent of a positive rational: \<open>2^e \<le> m < 2^(e+1)\<close>.\<close>

definition ilog2 :: "rat \<Rightarrow> int" where
  "ilog2 m = (if 1 \<le> m then int (bitlen (nat \<lfloor>m\<rfloor>)) - 1
              else - int (bitlen (nat (\<lceil>1 / m\<rceil> - 1))))"

definition scale2 :: "rat \<Rightarrow> int \<Rightarrow> rat" where
  "scale2 x k = (if 0 \<le> k then x * 2 ^ nat k else x / 2 ^ nat (- k))"

text \<open>
  Rounding of a magnitude \<open>m \<ge> 0\<close> to 53 significant bits, with the least exponent
  \<open>-1074\<close> of the subnormal range; \<open>None\<close> is overflow.
\<close>

definition round_mag :: "rat \<Rightarrow> rat option" where
  "round_mag m =
     (if m = 0 then Some 0
      else
        let q = max (ilog2 m - 52) (- 1074);
            r = scale2 (of_int (round_half_even (scale2 m (- q)))) q
        in if 2 ^ 1024 \<le> r then None else Some r)"

definition mk_num :: "bool \<Rightarrow> rat \<Rightarrow> jsnum" where
  "mk_num neg m =
     (case round_mag m of
        None \<Rightarrow> if neg then NegInf else PosInf
      | Some r \<Rightarrow> if neg then (if r = 0 then NegZero else Fin (- r)) else Fin r)"

definition is_double :: "rat \<Rightarrow> bool" where
  "is_double r = (round_mag \<bar>r\<bar> = Some \<bar>r\<bar>)"


definition is_zero :: "jsnum \<Rightarrow> bool" where
  "is_zero x = (x = NegZero \<or> x = Fin 0)"

definition is_inf :: "jsnum \<Rightarrow> bool" where
  "is_inf x = (x = PosInf \<or> x = NegInf)"

definition is_finite :: "jsnum \<Rightarrow> bool" where
  "is_finite x = (x \<noteq> NaN \<and> \<not> is_inf x)"

definition sign_bit :: "jsnum \<Rightarrow> bool" where
  "sign_bit x = (case x of NegInf \<Rightarrow> True | NegZero \<Rightarrow> True | Fin r \<Rightarrow> r < 0 | _ \<Rightarrow> False)"

definition mag :: "jsnum \<Rightarrow> rat" where
  "mag x = (case x of Fin r \<Rightarrow> \<bar>r\<bar> | _ \<Rightarrow> 0)"

definition val :: "jsnum \<Rightarrow> rat" where
  "val x = (case x of Fin r \<Rightarrow> r | _ \<Rightarrow> 0)"

text \<open>Addition.  Adding a zero to a non-zero double is exact, so it is not rounded again.\<close>

fun fadd :: "jsnum \<Rightarrow> jsnum \<Rightarrow> jsnum" where
  "fadd NaN y = NaN"
| "fadd x NaN = NaN"
| "fadd PosInf NegInf = NaN"
| "fadd NegInf PosInf = NaN"
| "fadd PosInf y = PosInf"
| "fadd x PosInf = PosInf"
| "fadd NegInf y = NegInf"
| "fadd x NegInf = NegInf"
| "fadd NegZero y = y"
| "fadd x NegZero = x"
| "fadd (Fin a) (Fin b) =
     (if b = 0 then Fin a else if a = 0 then Fin b else mk_num (a + b < 0) \<bar>a + b\<bar>)"

fun fneg :: "jsnum \<Rightarrow> jsnum" where
  "fneg NaN = NaN"
| "fneg PosInf = NegInf"
| "fneg NegInf = PosInf"
| "fneg NegZero = Fin 0"
| "fneg (Fin r) = (if r = 0 then NegZero else Fin (- r))"

definition fsub :: "jsnum \<Rightarrow> jsnum \<Rightarrow> jsnum" where
  "fsub x y = fadd x (fneg y)"

definition signed_inf :: "bool \<Rightarrow> jsnum" where
  "signed_inf neg = (if neg then NegInf else PosInf)"

definition signed_zero :: "bool \<Rightarrow> jsnum" where
  "signed_zero neg = (if neg then NegZero else Fin 0)"

definition fmul :: "jsnum \<Rightarrow> jsnum \<Rightarrow> jsnum" where
  "fmul x y =
     (if x = NaN \<or> y = NaN then NaN
      else if is_inf x \<or> is_inf y then
        (if is_zero x \<or> is_zero y then NaN else signed_inf (sign_bit x \<noteq> sign_bit y))
      else mk_num (sign_bit x \<noteq> sign_bit y) (mag x * mag y))"

definition fdiv :: "jsnum \<Rightarrow> jsnum \<Rightarrow> jsnum" where
  "fdiv x y =
     (if x = NaN \<or> y = NaN then NaN
      else if is_inf x then
        (if is_inf y then NaN else signed_inf (sign_bit x \<noteq> sign_bit y))
      else if is_inf y then signed_zero (sign_bit x \<noteq> sign_bit y)
      else if is_zero y then
        (if is_zero x then NaN else signed_inf (sign_bit x \<noteq> sign_bit y))
      else mk_num (sign_bit x \<noteq> sign_bit y) (mag x / mag y))"

text \<open>The relational operators \<open><\<close> and \<open>>=\<close>: every comparison with NaN is false.\<close>

fun js_lt :: "jsnum \<Rightarrow> jsnum \<Rightarrow> bool" where
  "js_lt NaN y = False"
| "js_lt x NaN = False"
| "js_lt PosInf y = False"
| "js_lt x NegInf = False"
| "js_lt NegInf y = True"
| "js_lt x PosInf = True"
| "js_lt x y = (val x < val y)"

definition js_ge :: "jsnum \<Rightarrow> jsnum \<Rightarrow> bool" where
  "js_ge x y = (x \<noteq> NaN \<and> y \<noteq> NaN \<and> \<not> js_lt x y)"

text \<open>Truthiness of a number: \<open>+0\<close>, \<open>-0\<close> and NaN are falsy.\<close>

definition truthy_num :: "jsnum \<Rightarrow> bool" where
  "truthy_num x = (x \<noteq> NaN \<and> \<not> is_zero x)"

text \<open>Equality of numeric value: NaN equals NaN and the two zeros are equal.\<close>

definition same_value_zero :: "jsnum \<Rightarrow> jsnum \<Rightarrow> bool" where
  "same_value_zero x y = (x = y \<or> (is_zero x \<and> is_zero y))"

text \<open>\<open>Math.min\<close> and \<open>Math.max\<close> of an argument list, as the language defines them.\<close>

fun Math_min_from :: "jsnum \<Rightarrow> jsnum list \<Rightarrow> jsnum" where
  "Math_min_from lowest [] = lowest"
| "Math_min_from lowest (x # xs) =
     (if x = NaN then NaN
      else if x = NegZero \<and> lowest = Fin 0 then Math_min_from NegZero xs
      else if js_lt x lowest then Math_min_from x xs
      else Math_min_from lowest xs)"

definition Math_min :: "jsnum list \<Rightarrow> jsnum" where
  "Math_min xs = Math_min_from PosInf xs"

fun Math_max_from :: "jsnum \<Rightarrow> jsnum list \<Rightarrow> jsnum" where
  "Math_max_from highest [] = highest"
| "Math_max_from highest (x # xs) =
     (if x = NaN then NaN
      else if x = Fin 0 \<and> highest = NegZero then Math_max_from (Fin 0) xs
      else if js_lt highest x then Math_max_from x xs
      else Math_max_from highest xs)"

definition Math_max :: "jsnum list \<Rightarrow> jsnum" where
  "Math_max xs = Math_max_from NegInf xs"


section \<open>JavaScript values\<close>

text \<open>
  The values that \<open>JSON.parse\<close> produces, and \<open>undefined\<close>, which a read of a missing
  property produces.  An object is the list of its own properties; a property is read
  through \<open>map_of\<close> and written through \<open>AList.update\<close>.
\<close>

datatype jsval =
    JUndefined
  | JNull
  | JBool bool
  | JNum jsnum
  | JStr string
  | JArr "jsval list"
  | JObj "(string \<times> jsval) list"

datatype js_error =
    TypeError
  | RangeError
  | Error string
  | NoPrice jsval
  | RequestFailed string

fun truthy :: "jsval \<Rightarrow> bool" where
  "truthy JUndefined = False"
| "truthy JNull = False"
| "truthy (JBool b) = b"
| "truthy (JNum n) = truthy_num n"
| "truthy (JStr s) = (s \<noteq> [])"
| "truthy (JArr xs) = True"
| "truthy (JObj kv) = True"

definition js_or :: "jsval \<Rightarrow> jsval \<Rightarrow> jsval" where
  "js_or a b = (if truthy a then a else b)"

definition nullish :: "jsval \<Rightarrow> bool" where
  "nullish v = (v = JUndefined \<or> v = JNull)"

text \<open>
  \<open>get_prop v k\<close> is the read \<open>v.k\<close> for the property names this program reads, none of which
  is a property of a prototype: it throws on \<open>null\<close> and \<open>undefined\<close>, and is
  \<open>undefined\<close> on every value that has no own property \<open>k\<close>.
\<close>

definition get_prop :: "jsval \<Rightarrow> string \<Rightarrow> js_error + jsval" where
  "get_prop v k =
     (case v of
        JUndefined \<Rightarrow> Inl TypeError
      | JNull \<Rightarrow> Inl TypeError
      | JObj kv \<Rightarrow> Inr (case map_of kv k of None \<Rightarrow> JUndefined | Some x \<Rightarrow> x)
      | _ \<Rightarrow> Inr JUndefined)"

definition has_prop :: "string \<Rightarrow> jsval \<Rightarrow> bool" where
  "has_prop k v = (case v of JObj kv \<Rightarrow> map_of kv k \<noteq> None | _ \<Rightarrow> False)"

definition is_array :: "jsval \<Rightarrow> bool" where
  "is_array v = (case v of JArr xs \<Rightarrow> True | _ \<Rightarrow> False)"

definition typeof_object :: "jsval \<Rightarrow> bool" where
  "typeof_object v = (case v of JNull \<Rightarrow> True | JArr xs \<Rightarrow> True | JObj kv \<Rightarrow> True | _ \<Rightarrow> False)"


section \<open>Validation (script.js)\<close>

definition validatePayload :: "jsval \<Rightarrow> js_error + jsval" where
  "validatePayload data =
     (if \<not> truthy data \<or> \<not> typeof_object data then Inl (Error ''Invalid JSON payload.'')
      else if \<not> has_prop ''equity_series'' data then
        Inl (Error ''Missing \"equity_series\" array.'')
      else if \<not> (case get_prop data ''equity_series'' of Inr s \<Rightarrow> is_array s | Inl e \<Rightarrow> False)
        then Inl (Error ''\"equity_series\" must be an array.'')
      else if \<not> has_prop ''positions'' data then
        (case data of
           JObj kv \<Rightarrow> Inr (JObj (AList.update ''positions'' (JArr []) kv))
         | _ \<Rightarrow> Inr data)
      else Inr data)"



section \<open>The host\<close>

text \<open>
  What the program takes from its host and the network:
  \<^item> \<open>Number_of v\<close> is \<open>Number(v)\<close> for a string, an array or an object \<open>v\<close>, the cases whose
    result is the host's reading of a numeric literal;
  \<^item> \<open>fetchWithTimeout i ticker\<close> is the outcome of the request that \<open>getLivePrice\<close> awaits
    for the \<open>i\<close>-th position: the decoded response, or the error of a failed transport,
    a status that is not a success, a body that is not JSON, or the abort at the timeout
    (the URL also carries the current time, so the request is named by its index as well);
  \<^item> \<open>arraylike_scan kv\<close> is the result of the backward loop of \<open>getLivePrice\<close> over an object
    that is not an array but has a \<open>length\<close> property: \<open>Some (Some c)\<close> when the loop returns
    at the entry \<open>c\<close>, \<open>Some None\<close> when it runs out, \<open>None\<close> when it never ends;
  \<^item> \<open>max_arguments\<close> is the greatest number of arguments the engine takes in one call: a
    call \<open>f(...args)\<close> that spreads a longer array throws a \<open>RangeError\<close>.  The number
    differs between engines (JavaScriptCore documents 65536).
\<close>

record js_host =
  Number_of :: "jsval \<Rightarrow> jsnum"
  fetchWithTimeout :: "nat \<Rightarrow> jsval \<Rightarrow> js_error + jsval"
  arraylike_scan :: "(string \<times> jsval) list \<Rightarrow> jsval option option"
  max_arguments :: nat

definition ToNumber :: "js_host \<Rightarrow> jsval \<Rightarrow> jsnum" where
  "ToNumber h v =
     (case v of
        JUndefined \<Rightarrow> NaN
      | JNull \<Rightarrow> Fin 0
      | JBool b \<Rightarrow> if b then Fin 1 else Fin 0
      | JNum n \<Rightarrow> n
      | _ \<Rightarrow> Number_of h v)"

text \<open>
  A host with no network, which reads every string, array and object as NaN and takes
  65536 arguments in a call; it closes the examples whose numeric fields hold numbers only.
\<close>

definition offline_host :: js_host where
  "offline_host =
     \<lparr>Number_of = (\<lambda>v. NaN),
      fetchWithTimeout = (\<lambda>i ticker. Inl (RequestFailed ''offline'')),
      arraylike_scan = (\<lambda>kv. Some None),
      max_arguments = 65536\<rparr>"

text \<open>\<open>x || y\<close> on numbers.\<close>

definition num_or :: "jsnum \<Rightarrow> jsnum \<Rightarrow> jsnum" where
  "num_or x y = (if truthy_num x then x else y)"

text \<open>
  The call \<open>f(...args)\<close> of a function of numbers: every element of the array is one
  argument of the call, which the engine refuses when there are too many.
\<close>

definition spread_call :: "js_host \<Rightarrow> (jsnum list \<Rightarrow> jsnum) \<Rightarrow> jsnum list \<Rightarrow> js_error + jsnum" where
  "spread_call h f args = (if max_arguments h < length args then Inl RangeError else Inr (f args))"



section \<open>The chart (script.js and app.js)\<close>

text \<open>
  The elements that \<open>drawChart\<close> appends to the chart.  A numeric attribute holds the number
  handed to \<open>setAttribute\<close>; the \<open>d\<close> attribute of the path holds its vertices in order (the
  first is the \<open>M\<close> command, every other one an \<open>L\<close> command); the content of a label holds
  the number handed to \<open>fmtNumber\<close>.
\<close>

datatype svg_node =
    SvgLine jsnum jsnum jsnum jsnum string string
      \<comment> \<open>x1, x2, y1, y2, stroke, stroke-dasharray\<close>
  | SvgPath "(jsnum \<times> jsnum) list" string string string
      \<comment> \<open>d, fill, stroke, stroke-width\<close>
  | SvgCircle jsnum jsnum jsnum string
      \<comment> \<open>cx, cy, r, fill\<close>
  | SvgText jsnum jsnum string string string jsnum
      \<comment> \<open>x, y, fill, font-size, text-anchor, content\<close>

record chart_dom =
  chart_children :: "svg_node list"
  chart_viewBox :: "string option"
  chartWrap_display :: string

definition W :: jsnum where "W = Fin 800"
definition H :: jsnum where "H = Fin 220"
definition PAD :: jsnum where "PAD = Fin 18"

text \<open>The loop \<open>while (svg.firstChild) svg.removeChild(svg.firstChild)\<close>.\<close>

fun removeChildren :: "svg_node list \<Rightarrow> svg_node list" where
  "removeChildren [] = []"
| "removeChildren (c # cs) = removeChildren cs"

text \<open>\<open>series.map(p => Number(p.equity))\<close>: the read throws on a \<open>null\<close> element.\<close>

fun plotted :: "js_host \<Rightarrow> string \<Rightarrow> jsval list \<Rightarrow> js_error + jsnum list" where
  "plotted h k [] = Inr []"
| "plotted h k (p # ps) =
     (case get_prop p k of
        Inl e \<Rightarrow> Inl e
      | Inr v \<Rightarrow> (case plotted h k ps of
                    Inl e \<Rightarrow> Inl e
                  | Inr vs \<Rightarrow> Inr (ToNumber h v # vs)))"

text \<open>
  The two scales.  An index, like the length of an array, is below \<open>2^32\<close>, so it is a
  double as it stands.
\<close>

definition xScale :: "nat \<Rightarrow> nat \<Rightarrow> jsnum" where
  "xScale xMax i =
     fadd PAD (fdiv (fmul (Fin (of_nat i)) (fsub W (fmul (Fin 2) PAD)))
                    (num_or (Fin (of_nat xMax)) (Fin 1)))"

definition yScale :: "jsnum \<Rightarrow> jsnum \<Rightarrow> jsnum \<Rightarrow> jsnum" where
  "yScale yMin yMax v =
     fsub (fsub H PAD)
          (fdiv (fmul (fsub v yMin) (fsub H (fmul (Fin 2) PAD)))
                (num_or (fsub yMax yMin) (Fin 1)))"

definition text_anchor :: "jsnum \<Rightarrow> string" where
  "text_anchor x = (if js_lt x (fdiv W (Fin 2)) then ''start'' else ''end'')"

text \<open>
  The drawing proper, from the plotted values \<open>vs\<close> of the \<open>n\<close> points: the elements to
  append, or the error thrown before any of them is made.  \<open>Math.min(...ys)\<close> and
  \<open>Math.max(...ys)\<close> pass every element of \<open>ys\<close> as an argument, so they throw on a \<open>ys\<close>
  longer than the engine allows.  \<open>last\<close> is \<open>ys[ys.length - 1]\<close>; on an empty \<open>ys\<close> that is
  \<open>undefined\<close>, which \<open>yScale\<close> turns into NaN at its subtraction.
\<close>

definition chart_nodes :: "js_host \<Rightarrow> jsnum list \<Rightarrow> nat \<Rightarrow> js_error + svg_node list" where
  "chart_nodes h vs n =
     (let ys = filter (\<lambda>v. v \<noteq> NaN) vs;
          xMax = n - 1
      in case spread_call h Math_min ys of
           Inl e \<Rightarrow> Inl e
         | Inr yMin \<Rightarrow>
             (case spread_call h Math_max ys of
                Inl e \<Rightarrow> Inl e
              | Inr yMax \<Rightarrow>
                  (let last = (if ys = [] then NaN else last ys);
                       grid = SvgLine PAD (fsub W PAD) (yScale yMin yMax last) (yScale yMin yMax last)
                                ''#2a355f'' ''4 4'';
                       path = SvgPath (map (\<lambda>(i, v). (xScale xMax i, yScale yMin yMax v))
                                         (enumerate 0 vs))
                                ''none'' ''#6ae2a0'' ''2.5'';
                       dot = SvgCircle (xScale xMax xMax) (yScale yMin yMax last) (Fin (9 / 2))
                               ''#6ae2a0'';
                       lbls = [(PAD, fsub H (Fin 4), yMin), (fsub W PAD, fsub H (Fin 4), yMax)]
                   in Inr ([grid, path, dot]
                           @ map (\<lambda>(x, y, t). SvgText x y ''#9aa3b2'' ''11'' (text_anchor x) t)
                               lbls))))"

text \<open>
  \<open>drawChart\<close>, with the name \<open>k\<close> of the plotted property: \<open>equity\<close> in script.js, \<open>close\<close>
  in app.js; the two functions differ in nothing else.  The result is the chart after the
  call and the error thrown, if any.
\<close>

definition drawChart_on ::
  "string \<Rightarrow> js_host \<Rightarrow> jsval \<Rightarrow> chart_dom \<Rightarrow> chart_dom \<times> js_error option" where
  "drawChart_on k h series chart =
     (let cleared = chart\<lparr>chart_children := removeChildren (chart_children chart)\<rparr>;
          hidden = cleared\<lparr>chartWrap_display := ''none''\<rparr>
      in case series of
           JArr ps \<Rightarrow>
             if length ps < 2 then (hidden, None)
             else
               let shown = cleared\<lparr>chartWrap_display := [],
                                   chart_viewBox := Some ''0 0 800 220''\<rparr>
               in (case plotted h k ps of
                     Inl e \<Rightarrow> (shown, Some e)
                   | Inr vs \<Rightarrow>
                       (case chart_nodes h vs (length ps) of
                          Inl e \<Rightarrow> (shown, Some e)
                        | Inr ns \<Rightarrow>
                            (shown\<lparr>chart_children := chart_children shown @ ns\<rparr>, None)))
         | _ \<Rightarrow> (hidden, None))"

definition drawChart :: "js_host \<Rightarrow> jsval \<Rightarrow> chart_dom \<Rightarrow> chart_dom \<times> js_error option" where
  "drawChart = drawChart_on ''equity''"

definition drawChart_app :: "js_host \<Rightarrow> jsval \<Rightarrow> chart_dom \<Rightarrow> chart_dom \<times> js_error option" where
  "drawChart_app = drawChart_on ''close''"

text \<open>Reading the chart: the vertex lists of its paths, and the centres of its circles.\<close>

fun path_vertices :: "svg_node list \<Rightarrow> (jsnum \<times> jsnum) list list" where
  "path_vertices [] = []"
| "path_vertices (SvgPath d f s w # ns) = d # path_vertices ns"
| "path_vertices (n # ns) = path_vertices ns"

fun circle_centres :: "svg_node list \<Rightarrow> (jsnum \<times> jsnum) list" where
  "circle_centres [] = []"
| "circle_centres (SvgCircle cx cy r f # ns) = (cx, cy) # circle_centres ns"
| "circle_centres (n # ns) = circle_centres ns"


section \<open>Live prices (script.js)\<close>

text \<open>The optional reads \<open>v?.k\<close> and \<open>v?.[0]\<close>, which never throw.\<close>

definition opt_prop :: "jsval \<Rightarrow> string \<Rightarrow> jsval" where
  "opt_prop v k =
     (case v of
        JObj kv \<Rightarrow> (case map_of kv k of None \<Rightarrow> JUndefined | Some x \<Rightarrow> x)
      | _ \<Rightarrow> JUndefined)"

definition opt_first :: "jsval \<Rightarrow> jsval" where
  "opt_first v =
     (case v of
        JArr xs \<Rightarrow> (case xs of [] \<Rightarrow> JUndefined | x # _ \<Rightarrow> x)
      | JStr s \<Rightarrow> (case s of [] \<Rightarrow> JUndefined | c # _ \<Rightarrow> JStr [c])
      | JObj kv \<Rightarrow> (case map_of kv ''0'' of None \<Rightarrow> JUndefined | Some x \<Rightarrow> x)
      | _ \<Rightarrow> JUndefined)"

text \<open>
  \<open>res?.indicators?.quote?.[0]?.close\<close> with \<open>res = data?.chart?.result?.[0]\<close>, and
  \<open>closes\<close>, which is that value or, when it is falsy, the empty array.
\<close>

definition quote_close :: "jsval \<Rightarrow> jsval" where
  "quote_close data =
     (let res = opt_first (opt_prop (opt_prop data ''chart'') ''result'')
      in opt_prop (opt_first (opt_prop (opt_prop res ''indicators'') ''quote'')) ''close'')"

definition quote_closes :: "jsval \<Rightarrow> jsval" where
  "quote_closes data = js_or (quote_close data) (JArr [])"

text \<open>
  The loop \<open>for (let i = closes.length - 1; i >= 0; i--)\<close> over an array, with the counter
  one above \<open>i\<close>: it returns the first entry, from the end, that is neither \<open>null\<close> nor
  \<open>undefined\<close>.
\<close>

fun scan_closes :: "jsval list \<Rightarrow> nat \<Rightarrow> jsval option" where
  "scan_closes closes 0 = None"
| "scan_closes closes (Suc i) =
     (if \<not> nullish (closes ! i) then Some (closes ! i) else scan_closes closes i)"

text \<open>
  \<open>getLivePrice\<close> for the \<open>i\<close>-th position.  The result is \<open>None\<close> when the call never
  settles.  A truthy \<open>closes\<close> that is a string has no \<open>null\<close> entry, so its last
  character is returned; one that is a number, a boolean or an object without \<open>length\<close>
  has an undefined length, so the loop is not entered.
\<close>

definition getLivePrice :: "js_host \<Rightarrow> nat \<Rightarrow> jsval \<Rightarrow> (js_error + jsnum) option" where
  "getLivePrice h i ticker =
     (case fetchWithTimeout h i ticker of
        Inl e \<Rightarrow> Some (Inl e)
      | Inr data \<Rightarrow>
          (case quote_closes data of
             JArr closes \<Rightarrow>
               Some (case scan_closes closes (length closes) of
                       Some c \<Rightarrow> Inr (ToNumber h c)
                     | None \<Rightarrow> Inl (NoPrice ticker))
           | JStr s \<Rightarrow> Some (Inr (ToNumber h (JStr [last s])))
           | JObj kv \<Rightarrow>
               (if map_of kv ''length'' = None then Some (Inl (NoPrice ticker))
                else (case arraylike_scan h kv of
                        None \<Rightarrow> None
                      | Some None \<Rightarrow> Some (Inl (NoPrice ticker))
                      | Some (Some c) \<Rightarrow> Some (Inr (ToNumber h c))))
           | _ \<Rightarrow> Some (Inl (NoPrice ticker))))"


section \<open>Enrichment (script.js)\<close>

text \<open>The own properties that \<open>{...p}\<close> copies; an index is a property named in decimal.\<close>

fun index_key :: "nat \<Rightarrow> string" where
  "index_key n =
     (if n < 10 then [char_of (48 + n)]
      else index_key (n div 10) @ [char_of (48 + n mod 10)])"

declare index_key.simps [simp del]

definition spread :: "jsval \<Rightarrow> (string \<times> jsval) list" where
  "spread p =
     (case p of
        JObj kv \<Rightarrow> kv
      | JArr xs \<Rightarrow> zip (map index_key [0..<length xs]) xs
      | JStr s \<Rightarrow> zip (map index_key [0..<length s]) (map (\<lambda>c. JStr [c]) s)
      | _ \<Rightarrow> [])"

text \<open>\<open>{...p, current_price: c, market_value: m, unrealized_pl: u}\<close>.\<close>

definition with_derived :: "jsval \<Rightarrow> jsnum \<Rightarrow> jsnum \<Rightarrow> jsnum \<Rightarrow> jsval" where
  "with_derived p c m u =
     JObj (AList.update ''unrealized_pl'' (JNum u)
            (AList.update ''market_value'' (JNum m)
              (AList.update ''current_price'' (JNum c) (spread p))))"

text \<open>The task of one position: the asynchronous function handed to \<open>positions.map\<close>.\<close>

definition price_task :: "js_host \<Rightarrow> nat \<Rightarrow> jsval \<Rightarrow> (js_error + jsval) option" where
  "price_task h i p =
     (case get_prop p ''ticker'' of
        Inl e \<Rightarrow> Some (Inl e)
      | Inr ticker \<Rightarrow>
          (case getLivePrice h i ticker of
             None \<Rightarrow> None
           | Some (Inl e) \<Rightarrow> Some (Inl e)
           | Some (Inr price) \<Rightarrow>
               (case get_prop p ''qty'' of
                  Inl e \<Rightarrow> Some (Inl e)
                | Inr q \<Rightarrow>
                    (case get_prop p ''avg_price'' of
                       Inl e \<Rightarrow> Some (Inl e)
                     | Inr a \<Rightarrow>
                         let qty = ToNumber h (js_or q (JNum (Fin 0)));
                             avg = ToNumber h (js_or a (JNum (Fin 0)));
                             mv = fmul qty price;
                             upl = fmul (fsub price avg) qty
                         in Some (Inr (with_derived p price mv upl))))))"

text \<open>
  The callback of \<open>results.map\<close>: a fulfilled task gives its value, a rejected one the
  zeroed position; the read of \<open>p.ticker\<close> for the warning throws on a \<open>null\<close> position.
\<close>

definition settle :: "jsval \<Rightarrow> js_error + jsval \<Rightarrow> js_error + jsval" where
  "settle p res =
     (case res of
        Inr v \<Rightarrow> Inr v
      | Inl reason \<Rightarrow>
          (case get_prop p ''ticker'' of
             Inl e \<Rightarrow> Inl e
           | Inr t \<Rightarrow> Inr (with_derived p (Fin 0) (Fin 0) (Fin 0))))"

fun settle_all :: "jsval list \<Rightarrow> (js_error + jsval) list \<Rightarrow> js_error + jsval list" where
  "settle_all (p # ps) (res # rs) =
     (case settle p res of
        Inl e \<Rightarrow> Inl e
      | Inr v \<Rightarrow> (case settle_all ps rs of Inl e \<Rightarrow> Inl e | Inr vs \<Rightarrow> Inr (v # vs)))"
| "settle_all ps rs = Inr []"

text \<open>
  \<open>enrichPositionsWithLivePrices\<close>: \<open>None\<close> when some task never settles, \<open>Inl\<close> when the
  function throws, \<open>Inr\<close> with the enriched positions otherwise.
\<close>

definition enrichPositionsWithLivePrices ::
  "js_host \<Rightarrow> jsval list \<Rightarrow> (js_error + jsval list) option" where
  "enrichPositionsWithLivePrices h positions =
     (case those (map (\<lambda>(i, p). price_task h i p) (enumerate 0 positions)) of
        None \<Rightarrow> None
      | Some results \<Rightarrow> Some (settle_all positions results))"


section \<open>Positions table and KPIs (script.js)\<close>

text \<open>\<open>avg_price ? ((current_price - avg_price) / avg_price) * 100 : 0\<close> on the raw fields.\<close>

definition plPct :: "js_host \<Rightarrow> jsval \<Rightarrow> jsval \<Rightarrow> jsnum" where
  "plPct h avg_price current_price =
     (if truthy avg_price
      then fmul (fdiv (fsub (ToNumber h current_price) (ToNumber h avg_price))
                      (ToNumber h avg_price))
                (Fin 100)
      else Fin 0)"

text \<open>
  A row of the positions table: the values handed to the formatters, the percentage and
  the two colour classes.
\<close>

record position_row =
  row_ticker :: jsval
  row_qty :: jsval
  row_avg_price :: jsval
  row_current_price :: jsval
  row_market_value :: jsval
  row_unrealized_pl :: jsval
  row_plPct :: jsnum
  row_up :: bool
  row_pl_up :: bool

definition position_row_of :: "js_host \<Rightarrow> jsval \<Rightarrow> js_error + position_row" where
  "position_row_of h pos =
     (if nullish pos then Inl TypeError
      else
        let ticker = opt_prop pos ''ticker'';
            qty = opt_prop pos ''qty'';
            avg_price = opt_prop pos ''avg_price'';
            current_price = opt_prop pos ''current_price'';
            market_value = opt_prop pos ''market_value'';
            unrealized_pl = opt_prop pos ''unrealized_pl'';
            pct = plPct h avg_price current_price
        in Inr \<lparr>row_ticker = ticker, row_qty = qty, row_avg_price = avg_price,
                row_current_price = current_price, row_market_value = market_value,
                row_unrealized_pl = unrealized_pl, row_plPct = pct,
                row_up = js_ge pct (Fin 0),
                row_pl_up = js_ge (ToNumber h unrealized_pl) (Fin 0)\<rparr>)"

fun position_rows :: "js_host \<Rightarrow> jsval list \<Rightarrow> js_error + position_row list" where
  "position_rows h [] = Inr []"
| "position_rows h (pos # ps) =
     (case position_row_of h pos of
        Inl e \<Rightarrow> Inl e
      | Inr r \<Rightarrow> (case position_rows h ps of Inl e \<Rightarrow> Inl e | Inr rs \<Rightarrow> Inr (r # rs)))"

text \<open>\<open>renderPositions\<close>: no row stands for the placeholder row "No positions".\<close>

definition renderPositions :: "js_host \<Rightarrow> jsval \<Rightarrow> js_error + position_row list" where
  "renderPositions h positions =
     (case positions of
        JArr ps \<Rightarrow> if length ps = 0 then Inr [] else position_rows h ps
      | _ \<Rightarrow> Inr [])"

text \<open>\<open>enrichedPositions.reduce((s, p) => s + Number(p.market_value || 0), 0)\<close>.\<close>

fun sum_market_value :: "js_host \<Rightarrow> jsnum \<Rightarrow> jsval list \<Rightarrow> js_error + jsnum" where
  "sum_market_value h s [] = Inr s"
| "sum_market_value h s (p # ps) =
     (case get_prop p ''market_value'' of
        Inl e \<Rightarrow> Inl e
      | Inr m \<Rightarrow> sum_market_value h (fadd s (ToNumber h (js_or m (JNum (Fin 0))))) ps)"

record one_ticker =
  oneTickerSym :: jsval
  oneTickerPrice :: jsval
  oneTickerPct :: jsnum
  oneTickerUp :: bool

text \<open>
  What \<open>renderKpis\<close> shows: the numbers handed to the formatters, the colour class, and the
  single-ticker panel when it is not hidden.  The reads of the first position cannot
  throw, the sum having read it before.
\<close>

record kpis =
  shown_portfolioValue :: jsnum
  shown_portfolioPct :: jsnum
  shown_portfolioUp :: bool
  shown_oneTicker :: "one_ticker option"

definition renderKpis :: "js_host \<Rightarrow> jsval \<Rightarrow> jsval list \<Rightarrow> js_error + kpis" where
  "renderKpis h payload enrichedPositions =
     (case get_prop payload ''invested_cost_basis'' of
        Inl e \<Rightarrow> Inl e
      | Inr b \<Rightarrow>
          let cost = ToNumber h (js_or b (JNum (Fin 0)))
          in (case sum_market_value h (Fin 0) enrichedPositions of
                Inl e \<Rightarrow> Inl e
              | Inr portfolioValue \<Rightarrow>
                  let vsBasisPct = (if truthy_num cost
                                    then fmul (fdiv (fsub portfolioValue cost) cost) (Fin 100)
                                    else Fin 0);
                      up = js_ge vsBasisPct (Fin 0)
                  in Inr \<lparr>shown_portfolioValue = portfolioValue,
                          shown_portfolioPct = vsBasisPct, shown_portfolioUp = up,
                          shown_oneTicker =
                            (case enrichedPositions of
                               [p] \<Rightarrow>
                                 let pct = plPct h (opt_prop p ''avg_price'')
                                                   (opt_prop p ''current_price'')
                                 in Some \<lparr>oneTickerSym = opt_prop p ''ticker'',
                                          oneTickerPrice = opt_prop p ''current_price'',
                                          oneTickerPct = pct,
                                          oneTickerUp = js_ge pct (Fin 0)\<rparr>
                             | _ \<Rightarrow> None)\<rparr>))"


section \<open>Example responses and hosts\<close>

text \<open>
  The response of the quote source, as far as \<open>getLivePrice\<close> reads it, for a sequence of
  closing prices; and two hosts that close the examples: one that quotes ticker \<open>A\<close> with
  the closes \<open>149, null, 150, null\<close>, answers ticker \<open>ZZZ\<close> with a response that has no
  result, and fails every other request, one that quotes every
  ticker with the single close \<open>1e999\<close>, which \<open>JSON.parse\<close> reads as \<open>Infinity\<close>.  As
  \<open>offline_host\<close> they read every string, array and object as NaN; the examples hold
  numbers only in their numeric fields.
\<close>

definition quote_response :: "jsval list \<Rightarrow> jsval" where
  "quote_response closes =
     JObj [(''chart'',
            JObj [(''result'',
                   JArr [JObj [(''indicators'',
                                JObj [(''quote'', JArr [JObj [(''close'', JArr closes)]])])]]),
                  (''error'', JNull)])]"

definition demo_host :: js_host where
  "demo_host =
     \<lparr>Number_of = (\<lambda>v. NaN),
      fetchWithTimeout =
        (\<lambda>i ticker.
           if ticker = JStr ''A''
           then Inr (quote_response [JNum (Fin 149), JNull, JNum (Fin 150), JNull])
           else if ticker = JStr ''ZZZ''
           then Inr (JObj [(''chart'', JObj [(''result'', JNull),
                                             (''error'', JObj [(''code'', JStr ''Not Found'')])])])
           else Inl (RequestFailed ''HTTP 404'')),
      arraylike_scan = (\<lambda>kv. Some None),
      max_arguments = 65536\<rparr>"

definition overflow_host :: js_host where
  "overflow_host =
     \<lparr>Number_of = (\<lambda>v. NaN),
      fetchWithTimeout = (\<lambda>i ticker. Inr (quote_response [JNum PosInf])),
      arraylike_scan = (\<lambda>kv. Some None),
      max_arguments = 65536\<rparr>"


section \<open>Evaluating numerals\<close>

lemma bitlen_0 [simp]: "bitlen 0 = 0"
  by (simp add: bitlen.simps)

lemma bitlen_Suc_0 [simp]: "bitlen (Suc 0) = 1"
  by (simp add: bitlen.simps)

lemma bitlen_One [simp]: "bitlen (numeral Num.One) = 1"
  by (simp add: bitlen.simps)

lemma bitlen_Bit0 [simp]: "bitlen (numeral (Num.Bit0 k)) = Suc (bitlen (numeral k))"
  by (subst bitlen.simps) simp

lemma bitlen_Bit1 [simp]: "bitlen (numeral (Num.Bit1 k)) = Suc (bitlen (numeral k))"
  by (subst bitlen.simps) simp

lemma floor_rat_numeral_div [simp]:
  "\<lfloor>numeral a / numeral b :: rat\<rfloor> = numeral a div numeral b"
  using floor_divide_of_int_eq [of "numeral a" "numeral b", where ?'a = rat] by simp

lemma floor_rat_one_div [simp]: "\<lfloor>1 / numeral b :: rat\<rfloor> = 1 div numeral b"
  using floor_divide_of_int_eq [of 1 "numeral b", where ?'a = rat] by simp

lemma ceiling_rat_numeral_div [simp]:
  "\<lceil>numeral a / numeral b :: rat\<rceil> = - (- numeral a div numeral b)"
  using ceiling_divide_eq_div [of "numeral a" "numeral b", where ?'a = rat] by simp

lemmas num_eval =
  fsub_def fmul_def fdiv_def mk_num_def round_mag_def round_half_even_def ilog2_def scale2_def
  Let_def is_inf_def is_zero_def sign_bit_def mag_def signed_inf_def signed_zero_def
  truthy_num_def num_or_def


section \<open>Rounding\<close>









lemma round_mag_0 [simp]: "round_mag 0 = Some 0"
  by (simp add: round_mag_def)

text \<open>Adding a zero to a double, computed by rounding, gives the double back.\<close>

lemma add_zero_rounds_to_itself:
  "is_double a \<Longrightarrow> mk_num (a + 0 < 0) \<bar>a + 0\<bar> = Fin a"
  by (auto simp: is_double_def mk_num_def)


















section \<open>The chart: what is drawn\<close>

lemma removeChildren_empty [simp]: "removeChildren cs = []"
  by (induction cs) simp_all

lemma get_prop_opt: "\<not> nullish p \<Longrightarrow> get_prop p k = Inr (opt_prop p k)"
  by (cases p) (simp_all add: get_prop_def opt_prop_def nullish_def)

lemma plotted_values:
  "\<forall>p\<in>set ps. \<not> nullish p \<Longrightarrow> plotted h k ps = Inr (map (\<lambda>p. ToNumber h (opt_prop p k)) ps)"
  by (induction ps) (simp_all add: get_prop_opt)


lemma chart_nodes_too_many:
  "max_arguments h < length (filter (\<lambda>v. v \<noteq> NaN) vs) \<Longrightarrow> chart_nodes h vs n = Inl RangeError"
  by (simp add: chart_nodes_def spread_call_def Let_def)


lemma drawChart_on_too_many:
  assumes "2 \<le> length ps" "\<forall>p\<in>set ps. \<not> nullish p"
    and "max_arguments h
           < length (filter (\<lambda>v. v \<noteq> NaN) (map (\<lambda>p. ToNumber h (opt_prop p k)) ps))"
  shows "drawChart_on k h (JArr ps) chart =
           (chart\<lparr>chart_children := [], chartWrap_display := [],
                  chart_viewBox := Some ''0 0 800 220''\<rparr>, Some RangeError)"
  using assms(1,2) chart_nodes_too_many [OF assms(3)]
  by (simp add: drawChart_on_def Let_def plotted_values)

text \<open>
  A series of 200000 points, each of equity 1, on an engine that takes 65536 arguments:
  the chart area is shown, \<open>Math.min(...ys)\<close> throws, and nothing is drawn.
\<close>

lemma drawChart_long_series:
  "drawChart offline_host (JArr (replicate 200000 (JObj [(''equity'', JNum (Fin 1))])))
     \<lparr>chart_children = [], chart_viewBox = None, chartWrap_display = ''none''\<rparr>
   = (\<lparr>chart_children = [], chart_viewBox = Some ''0 0 800 220'', chartWrap_display = []\<rparr>,
      Some RangeError)"
  unfolding drawChart_def
  by (subst drawChart_on_too_many)
     (simp_all add: nullish_def opt_prop_def ToNumber_def offline_host_def)

lemma last_filter_keep: "xs \<noteq> [] \<Longrightarrow> P (last xs) \<Longrightarrow> last (filter P xs) = last xs"
  by (induction xs) (auto split: if_splits simp: filter_empty_conv)


section \<open>Numbers up to the sign of zero\<close>

lemma mk_num_0: "mk_num neg 0 = signed_zero neg"
  by (simp add: mk_num_def signed_zero_def)

lemma mag_zero: "is_zero x \<Longrightarrow> mag x = 0"
  by (auto simp: is_zero_def mag_def)

lemma fmul_zero_left:
  "is_zero x \<Longrightarrow>
     fmul x y = (if y = NaN \<or> is_inf y then NaN else signed_zero (sign_bit x \<noteq> sign_bit y))"
  by (auto simp: fmul_def mag_zero mk_num_0 is_zero_def is_inf_def)

lemma fmul_zero_right:
  "is_zero y \<Longrightarrow>
     fmul x y = (if x = NaN \<or> is_inf x then NaN else signed_zero (sign_bit x \<noteq> sign_bit y))"
  by (auto simp: fmul_def mag_zero mk_num_0 is_zero_def is_inf_def)

lemma is_zero_signed_zero [simp]: "is_zero (signed_zero s)"
  by (simp add: is_zero_def signed_zero_def)

lemma same_value_zero_refl [simp]: "same_value_zero x x"
  by (simp add: same_value_zero_def)

lemma fmul_svz_cong:
  assumes "same_value_zero x x'" and "same_value_zero y y'"
  shows "same_value_zero (fmul x y) (fmul x' y')"
proof (cases "x = x'")
  case True
  show ?thesis
  proof (cases "y = y'")
    case True
    with \<open>x = x'\<close> show ?thesis by simp
  next
    case False
    with assms(2) have z: "is_zero y" "is_zero y'" by (auto simp: same_value_zero_def)
    show ?thesis unfolding True fmul_zero_right [OF z(1)] fmul_zero_right [OF z(2)]
      by (simp add: same_value_zero_def)
  qed
next
  case False
  with assms(1) have z: "is_zero x" "is_zero x'" by (auto simp: same_value_zero_def)
  have "y = NaN \<or> is_inf y \<longleftrightarrow> y' = NaN \<or> is_inf y'"
    using assms(2) by (auto simp: same_value_zero_def is_zero_def is_inf_def)
  then show ?thesis unfolding fmul_zero_left [OF z(1)] fmul_zero_left [OF z(2)]
    by (auto simp: same_value_zero_def)
qed

lemma fadd_NegZero_right [simp]: "fadd x NegZero = x"
  by (cases x) simp_all

lemma fadd_zero_left: "is_zero z \<Longrightarrow> same_value_zero (fadd z y) y"
  by (cases y) (auto simp: is_zero_def same_value_zero_def split: if_splits)

lemma fadd_zero_right: "is_zero z \<Longrightarrow> same_value_zero (fadd x z) x"
  by (cases x) (auto simp: is_zero_def same_value_zero_def split: if_splits)

lemma svz_zero_iff: "same_value_zero x y \<Longrightarrow> is_zero x = is_zero y"
  by (auto simp: same_value_zero_def)

lemma fadd_zero_zero: "is_zero x \<Longrightarrow> is_zero y \<Longrightarrow> is_zero (fadd x y)"
  by (auto simp: is_zero_def)

lemma fadd_svz_cong:
  assumes "same_value_zero x x'" and "same_value_zero y y'"
  shows "same_value_zero (fadd x y) (fadd x' y')"
proof (cases "is_zero x")
  case zx: True
  then have zx': "is_zero x'" using assms(1) by (simp add: svz_zero_iff)
  show ?thesis
  proof (cases "is_zero y")
    case True
    then have "is_zero y'" using assms(2) by (simp add: svz_zero_iff)
    with True zx zx' show ?thesis by (simp add: same_value_zero_def fadd_zero_zero)
  next
    case False
    then have "y' = y" using assms(2) by (auto simp: same_value_zero_def)
    with False zx zx' show ?thesis
      using fadd_zero_left [of x y] fadd_zero_left [of x' y]
      by (auto simp: same_value_zero_def)
  qed
next
  case nx: False
  then have x: "x' = x" using assms(1) by (auto simp: same_value_zero_def)
  show ?thesis
  proof (cases "is_zero y")
    case True
    then have "is_zero y'" using assms(2) by (simp add: svz_zero_iff)
    with True nx x show ?thesis
      using fadd_zero_right [of y x] fadd_zero_right [of y' x]
      by (auto simp: same_value_zero_def)
  next
    case False
    then have "y' = y" using assms(2) by (auto simp: same_value_zero_def)
    with x show ?thesis by simp
  qed
qed

lemma fneg_svz: "same_value_zero a a' \<Longrightarrow> same_value_zero (fneg a) (fneg a')"
  by (auto simp: same_value_zero_def is_zero_def)

lemma fsub_svz_cong:
  "same_value_zero x x' \<Longrightarrow> same_value_zero a a' \<Longrightarrow> same_value_zero (fsub x a) (fsub x' a')"
  unfolding fsub_def by (intro fadd_svz_cong fneg_svz)

lemma fsub_pos_zero [simp]: "fsub P (Fin 0) = P"
  by (simp add: fsub_def)

lemma coerce_number:
  "q \<noteq> NaN \<Longrightarrow> same_value_zero (ToNumber h (js_or (JNum q) (JNum (Fin 0)))) q"
  by (auto simp: js_or_def ToNumber_def truthy_num_def same_value_zero_def is_zero_def)

lemma coerce_falsy: "\<not> truthy v \<Longrightarrow> ToNumber h (js_or v (JNum (Fin 0))) = Fin 0"
  by (simp add: js_or_def ToNumber_def)

lemma fmul_zero_finite_left: "is_finite P \<Longrightarrow> is_zero (fmul (Fin 0) P)"
  by (simp add: fmul_zero_left is_zero_def is_finite_def signed_zero_def)

lemma fmul_zero_finite_right: "is_finite X \<Longrightarrow> is_zero (fmul X (Fin 0))"
  by (simp add: fmul_zero_right is_zero_def is_finite_def signed_zero_def)


lemma fmul_zero_not_finite_left: "\<not> is_finite P \<Longrightarrow> fmul (Fin 0) P = NaN"
  by (simp add: fmul_zero_left is_zero_def is_finite_def)

lemma fmul_zero_not_finite_right: "\<not> is_finite X \<Longrightarrow> fmul X (Fin 0) = NaN"
  by (simp add: fmul_zero_right is_zero_def is_finite_def)

section \<open>Live prices and enrichment: what is computed\<close>

lemma scan_closes_take:
  "n \<le> length closes \<Longrightarrow>
     scan_closes closes n =
       (if filter (\<lambda>c. \<not> nullish c) (take n closes) = [] then None
        else Some (last (filter (\<lambda>c. \<not> nullish c) (take n closes))))"
proof (induction n)
  case 0
  then show ?case by simp
next
  case (Suc n)
  then have "take (Suc n) closes = take n closes @ [closes ! n]"
    by (simp add: take_Suc_conv_app_nth)
  with Suc show ?case by simp
qed

lemmas quote_eval =
  quote_response_def quote_closes_def quote_close_def opt_prop_def opt_first_def js_or_def
  nullish_def ToNumber_def getLivePrice_def

lemma demo_price_A: "getLivePrice demo_host i (JStr ''A'') = Some (Inr (Fin 150))"
  by (simp add: demo_host_def quote_eval)

lemma demo_price_B: "getLivePrice demo_host i (JStr ''B'') = Some (Inl (RequestFailed ''HTTP 404''))"
  by (simp add: demo_host_def quote_eval)

lemma overflow_price: "getLivePrice overflow_host i t = Some (Inr PosInf)"
  by (simp add: overflow_host_def quote_eval)

lemma e300: "fmul (Fin 2) (Fin 150) = Fin 300"
  by (simp add: num_eval)

lemma e100: "fmul (fsub (Fin 150) (Fin 100)) (Fin 2) = Fin 100"
  by (simp add: num_eval)

lemma opt_prop_with_derived:
  "opt_prop (with_derived (JObj kv) c m u) k =
     (if k = ''unrealized_pl'' then JNum u
      else if k = ''market_value'' then JNum m
      else if k = ''current_price'' then JNum c
      else opt_prop (JObj kv) k)"
  by (simp add: with_derived_def opt_prop_def spread_def update_conv')

lemma price_task_object:
  "price_task h i (JObj kv) =
     (case getLivePrice h i (opt_prop (JObj kv) ''ticker'') of
        None \<Rightarrow> None
      | Some (Inl e) \<Rightarrow> Some (Inl e)
      | Some (Inr P) \<Rightarrow>
          Some (Inr (with_derived (JObj kv) P
            (fmul (ToNumber h (js_or (opt_prop (JObj kv) ''qty'') (JNum (Fin 0)))) P)
            (fmul (fsub P (ToNumber h (js_or (opt_prop (JObj kv) ''avg_price'') (JNum (Fin 0)))))
                  (ToNumber h (js_or (opt_prop (JObj kv) ''qty'') (JNum (Fin 0))))))))"
  by (simp add: price_task_def get_prop_def opt_prop_def Let_def split: option.splits sum.splits)

lemma settle_object:
  "settle (JObj kv) res =
     Inr (case res of Inr v \<Rightarrow> v | Inl e \<Rightarrow> with_derived (JObj kv) (Fin 0) (Fin 0) (Fin 0))"
  by (simp add: settle_def get_prop_def split: sum.splits)

lemma enrich_from:
  assumes "\<forall>p\<in>set ps. \<exists>kv. p = JObj kv"
    and "\<forall>j<length ps. getLivePrice h (n + j) (opt_prop (ps ! j) ''ticker'') \<noteq> None"
  shows "\<exists>results.
           those (map (\<lambda>(i, p). price_task h i p) (enumerate n ps)) = Some results
         \<and> length results = length ps
         \<and> (\<forall>j<length ps. price_task h (n + j) (ps ! j) = Some (results ! j))
         \<and> settle_all ps results = Inr (map2 (\<lambda>p res. case settle p res of Inr v \<Rightarrow> v | Inl e \<Rightarrow> JUndefined) ps results)"
  using assms
proof (induction ps arbitrary: n)
  case Nil
  then show ?case by simp
next
  case (Cons p ps)
  from Cons.prems(1) obtain kv where p: "p = JObj kv" by auto
  from Cons.prems(2) have "getLivePrice h (n + 0) (opt_prop ((p # ps) ! 0) ''ticker'') \<noteq> None"
    by blast
  then have "price_task h n p \<noteq> None"
    by (auto simp: p price_task_object split: option.splits sum.splits)
  then obtain r where r: "price_task h n p = Some r" by auto
  have "\<forall>j<length ps. getLivePrice h (Suc n + j) (opt_prop (ps ! j) ''ticker'') \<noteq> None"
  proof (intro allI impI)
    fix j assume "j < length ps"
    then have "Suc j < length (p # ps)" by simp
    with Cons.prems(2) have "getLivePrice h (n + Suc j) (opt_prop ((p # ps) ! Suc j) ''ticker'') \<noteq> None"
      by blast
    then show "getLivePrice h (Suc n + j) (opt_prop (ps ! j) ''ticker'') \<noteq> None" by simp
  qed
  with Cons.IH [of "Suc n"] Cons.prems(1)
  obtain results where ih:
    "those (map (\<lambda>(i, p). price_task h i p) (enumerate (Suc n) ps)) = Some results"
    "length results = length ps"
    "\<forall>j<length ps. price_task h (Suc n + j) (ps ! j) = Some (results ! j)"
    "settle_all ps results = Inr (map2 (\<lambda>p res. case settle p res of Inr v \<Rightarrow> v | Inl e \<Rightarrow> JUndefined) ps results)"
    by auto
  have nth: "\<forall>j<length (p # ps). price_task h (n + j) ((p # ps) ! j) = Some ((r # results) ! j)"
  proof (intro allI impI)
    fix j assume "j < length (p # ps)"
    then show "price_task h (n + j) ((p # ps) ! j) = Some ((r # results) ! j)"
      using r ih(3) by (cases j) simp_all
  qed
  have st: "settle p r = Inr (case settle p r of Inr v \<Rightarrow> v | Inl e \<Rightarrow> JUndefined)"
    by (simp add: p settle_object)
  have "settle_all (p # ps) (r # results) =
          Inr (map2 (\<lambda>p res. case settle p res of Inr v \<Rightarrow> v | Inl e \<Rightarrow> JUndefined) (p # ps) (r # results))"
    using st ih(4) by (simp split: sum.splits)
  with r ih(1,2) nth show ?case
    by (intro exI [of _ "r # results"]) simp
qed

lemma enrich_result:
  assumes "\<forall>p\<in>set ps. \<exists>kv. p = JObj kv"
    and "\<forall>i<length ps. getLivePrice h i (opt_prop (ps ! i) ''ticker'') \<noteq> None"
  shows "\<exists>rs. enrichPositionsWithLivePrices h ps = Some (Inr rs) \<and> length rs = length ps
           \<and> (\<forall>i<length ps.
                 (\<forall>P. getLivePrice h i (opt_prop (ps ! i) ''ticker'') = Some (Inr P) \<longrightarrow>
                    rs ! i = with_derived (ps ! i) P
                      (fmul (ToNumber h (js_or (opt_prop (ps ! i) ''qty'') (JNum (Fin 0)))) P)
                      (fmul (fsub P (ToNumber h (js_or (opt_prop (ps ! i) ''avg_price'') (JNum (Fin 0)))))
                            (ToNumber h (js_or (opt_prop (ps ! i) ''qty'') (JNum (Fin 0))))))
               \<and> (\<forall>e. getLivePrice h i (opt_prop (ps ! i) ''ticker'') = Some (Inl e) \<longrightarrow>
                    rs ! i = with_derived (ps ! i) (Fin 0) (Fin 0) (Fin 0)))"
proof -
  from assms(2) have "\<forall>j<length ps. getLivePrice h (0 + j) (opt_prop (ps ! j) ''ticker'') \<noteq> None"
    by simp
  from enrich_from [OF assms(1) this] obtain results where res:
    "those (map (\<lambda>(i, p). price_task h i p) (enumerate 0 ps)) = Some results"
    "length results = length ps"
    "\<forall>j<length ps. price_task h j (ps ! j) = Some (results ! j)"
    "settle_all ps results = Inr (map2 (\<lambda>p res. case settle p res of Inr v \<Rightarrow> v | Inl e \<Rightarrow> JUndefined) ps results)"
    by auto
  define rs where "rs = map2 (\<lambda>p res. case settle p res of Inr v \<Rightarrow> v | Inl e \<Rightarrow> JUndefined) ps results"
  have run: "enrichPositionsWithLivePrices h ps = Some (Inr rs)"
    by (simp add: enrichPositionsWithLivePrices_def res(1,4) rs_def)
  have len: "length rs = length ps" by (simp add: rs_def res(2))
  have each: "\<forall>i<length ps.
                 (\<forall>P. getLivePrice h i (opt_prop (ps ! i) ''ticker'') = Some (Inr P) \<longrightarrow>
                    rs ! i = with_derived (ps ! i) P
                      (fmul (ToNumber h (js_or (opt_prop (ps ! i) ''qty'') (JNum (Fin 0)))) P)
                      (fmul (fsub P (ToNumber h (js_or (opt_prop (ps ! i) ''avg_price'') (JNum (Fin 0)))))
                            (ToNumber h (js_or (opt_prop (ps ! i) ''qty'') (JNum (Fin 0))))))
               \<and> (\<forall>e. getLivePrice h i (opt_prop (ps ! i) ''ticker'') = Some (Inl e) \<longrightarrow>
                    rs ! i = with_derived (ps ! i) (Fin 0) (Fin 0) (Fin 0))"
  proof (intro allI impI)
    fix i assume i: "i < length ps"
    then obtain kv where kv: "ps ! i = JObj kv" using assms(1) nth_mem by blast
    have task: "price_task h i (JObj kv) = Some (results ! i)" using res(3) i kv by auto
    have rsi: "rs ! i = (case settle (JObj kv) (results ! i) of Inr v \<Rightarrow> v | Inl e \<Rightarrow> JUndefined)"
      using i res(2) kv by (simp add: rs_def)
    show "(\<forall>P. getLivePrice h i (opt_prop (ps ! i) ''ticker'') = Some (Inr P) \<longrightarrow>
                    rs ! i = with_derived (ps ! i) P
                      (fmul (ToNumber h (js_or (opt_prop (ps ! i) ''qty'') (JNum (Fin 0)))) P)
                      (fmul (fsub P (ToNumber h (js_or (opt_prop (ps ! i) ''avg_price'') (JNum (Fin 0)))))
                            (ToNumber h (js_or (opt_prop (ps ! i) ''qty'') (JNum (Fin 0))))))
               \<and> (\<forall>e. getLivePrice h i (opt_prop (ps ! i) ''ticker'') = Some (Inl e) \<longrightarrow>
                    rs ! i = with_derived (ps ! i) (Fin 0) (Fin 0) (Fin 0))"
      using task unfolding kv rsi price_task_object settle_object
      by (auto split: option.splits sum.splits)
  qed
  from run len each show ?thesis by blast
qed

lemmas enrich_eval =
  enrichPositionsWithLivePrices_def price_task_def settle_def with_derived_def spread_def
  get_prop_def js_or_def ToNumber_def truthy_num_def Let_def


section \<open>KPIs: what is shown\<close>

lemma plPct_number:
  "a \<noteq> NaN \<Longrightarrow>
     plPct h (JNum a) cp =
       (if is_zero a then Fin 0
        else fmul (fdiv (fsub (ToNumber h cp) a) a) (Fin 100))"
  by (simp add: plPct_def truthy_num_def ToNumber_def)

lemma position_row_of_plPct:
  "position_row_of h pos = Inr r \<Longrightarrow>
     row_plPct r = plPct h (opt_prop pos ''avg_price'') (opt_prop pos ''current_price'')"
  by (cases "nullish pos") (auto simp: position_row_of_def Let_def)

lemma renderKpis_Inr:
  assumes "renderKpis h payload ps = Inr kp"
  obtains b pv where "get_prop payload ''invested_cost_basis'' = Inr b"
    and "sum_market_value h (Fin 0) ps = Inr pv"
    and "shown_portfolioValue kp = pv"
    and "shown_portfolioPct kp =
           (if truthy_num (ToNumber h (js_or b (JNum (Fin 0))))
            then fmul (fdiv (fsub pv (ToNumber h (js_or b (JNum (Fin 0)))))
                            (ToNumber h (js_or b (JNum (Fin 0))))) (Fin 100)
            else Fin 0)"
    and "shown_oneTicker kp =
           (case ps of
              [p] \<Rightarrow> Some \<lparr>oneTickerSym = opt_prop p ''ticker'',
                           oneTickerPrice = opt_prop p ''current_price'',
                           oneTickerPct = plPct h (opt_prop p ''avg_price'')
                                                  (opt_prop p ''current_price''),
                           oneTickerUp = js_ge (plPct h (opt_prop p ''avg_price'')
                                                        (opt_prop p ''current_price'')) (Fin 0)\<rparr>
            | _ \<Rightarrow> None)"
proof (cases "get_prop payload ''invested_cost_basis''")
  case (Inl e)
  with assms show ?thesis by (simp add: renderKpis_def)
next
  case (Inr b)
  show ?thesis
  proof (cases "sum_market_value h (Fin 0) ps")
    case (Inl e)
    with assms Inr show ?thesis by (simp add: renderKpis_def del: sum_market_value.simps)
  next
    case pv: (Inr pv)
    from assms have kp: "renderKpis h payload ps = Inr kp" .
    have 1: "shown_portfolioValue kp = pv"
      using kp by (auto simp: renderKpis_def Inr pv Let_def simp del: sum_market_value.simps)
    have 2: "shown_portfolioPct kp =
           (if truthy_num (ToNumber h (js_or b (JNum (Fin 0))))
            then fmul (fdiv (fsub pv (ToNumber h (js_or b (JNum (Fin 0)))))
                            (ToNumber h (js_or b (JNum (Fin 0))))) (Fin 100)
            else Fin 0)"
      using kp by (auto simp: renderKpis_def Inr pv Let_def simp del: sum_market_value.simps)
    have 3: "shown_oneTicker kp =
           (case ps of
              [p] \<Rightarrow> Some \<lparr>oneTickerSym = opt_prop p ''ticker'',
                           oneTickerPrice = opt_prop p ''current_price'',
                           oneTickerPct = plPct h (opt_prop p ''avg_price'')
                                                  (opt_prop p ''current_price''),
                           oneTickerUp = js_ge (plPct h (opt_prop p ''avg_price'')
                                                        (opt_prop p ''current_price'')) (Fin 0)\<rparr>
            | _ \<Rightarrow> None)"
      using kp
      by (auto simp: renderKpis_def Inr pv Let_def simp del: sum_market_value.simps
               split: list.splits)
    show ?thesis by (rule that [OF Inr pv 1 2 3])
  qed
qed

lemma renderKpis_portfolioPct:
  assumes "renderKpis h payload ps = Inr kp"
    and "get_prop payload ''invested_cost_basis'' = Inr (JNum c)" and "c \<noteq> NaN"
  shows "shown_portfolioPct kp =
           (if is_zero c then Fin 0
            else fmul (fdiv (fsub (shown_portfolioValue kp) c) c) (Fin 100))"
proof -
  have cost: "ToNumber h (js_or (JNum c) (JNum (Fin 0))) = (if is_zero c then Fin 0 else c)"
    using assms(3) by (simp add: js_or_def ToNumber_def truthy_num_def)
  from assms(1) obtain b pv where "get_prop payload ''invested_cost_basis'' = Inr b"
    and "shown_portfolioValue kp = pv"
    and "shown_portfolioPct kp =
           (if truthy_num (ToNumber h (js_or b (JNum (Fin 0))))
            then fmul (fdiv (fsub pv (ToNumber h (js_or b (JNum (Fin 0)))))
                            (ToNumber h (js_or b (JNum (Fin 0))))) (Fin 100)
            else Fin 0)"
    by (rule renderKpis_Inr)
  with assms(2,3) show ?thesis
    by (cases "is_zero c") (simp_all add: cost truthy_num_def is_zero_def)
qed

lemma renderKpis_oneTicker:
  assumes "renderKpis h payload [p] = Inr kp"
  shows "map_option oneTickerPct (shown_oneTicker kp) =
           Some (plPct h (opt_prop p ''avg_price'') (opt_prop p ''current_price''))"
  using assms by (rule renderKpis_Inr) simp

lemma renderKpis_no_basis:
  assumes "renderKpis h payload ps = Inr kp"
    and "get_prop payload ''invested_cost_basis'' = Inr JUndefined"
  shows "shown_portfolioPct kp = Fin 0"
proof -
  from assms(1) obtain b pv where "get_prop payload ''invested_cost_basis'' = Inr b"
    and "shown_portfolioPct kp =
           (if truthy_num (ToNumber h (js_or b (JNum (Fin 0))))
            then fmul (fdiv (fsub pv (ToNumber h (js_or b (JNum (Fin 0)))))
                            (ToNumber h (js_or b (JNum (Fin 0))))) (Fin 100)
            else Fin 0)"
    by (rule renderKpis_Inr)
  with assms(2) show ?thesis
    by (simp add: js_or_def ToNumber_def truthy_num_def is_zero_def)
qed

lemma position_rows_nth:
  "position_rows h ps = Inr rows \<Longrightarrow>
     length rows = length ps \<and> (\<forall>i<length ps. position_row_of h (ps ! i) = Inr (rows ! i))"
proof (induction ps arbitrary: rows)
  case Nil
  then show ?case by simp
next
  case (Cons p ps)
  from Cons.prems obtain r rs where r: "position_row_of h p = Inr r"
    and rs: "position_rows h ps = Inr rs" and rows: "rows = r # rs"
    by (auto split: sum.splits)
  from Cons.IH [OF rs] have ih: "length rs = length ps"
    "\<forall>i<length ps. position_row_of h (ps ! i) = Inr (rs ! i)" by auto
  have "position_row_of h ((p # ps) ! i) = Inr (rows ! i)" if "i < length (p # ps)" for i
    using that r ih(2) rows by (cases i) simp_all
  with ih(1) rows show ?case by simp
qed

lemma renderPositions_row:
  assumes "renderPositions h (JArr ps) = Inr rows" and "i < length ps"
  shows "position_row_of h (ps ! i) = Inr (rows ! i)"
proof -
  from assms have "position_rows h ps = Inr rows"
    by (auto simp: renderPositions_def split: if_splits)
  with assms(2) show ?thesis using position_rows_nth by blast
qed

lemma sum_market_value_svz:
  assumes "\<forall>p\<in>set ps. \<exists>m. opt_prop p ''market_value'' = JNum m"
    and "same_value_zero s s'"
  shows "\<exists>t. sum_market_value h s ps = Inr t
           \<and> same_value_zero t
               (foldl fadd s' (map (\<lambda>p. let m = ToNumber h (opt_prop p ''market_value'')
                                          in if m = NaN then Fin 0 else m) ps))"
  using assms
proof (induction ps arbitrary: s s')
  case Nil
  then show ?case by simp
next
  case (Cons p ps)
  from Cons.prems(1) obtain m where m: "opt_prop p ''market_value'' = JNum m" by auto
  then have np: "\<not> nullish p" by (auto simp: nullish_def opt_prop_def)
  have c: "same_value_zero (ToNumber h (js_or (JNum m) (JNum (Fin 0))))
             (if m = NaN then Fin 0 else m)"
    by (auto simp: js_or_def ToNumber_def truthy_num_def same_value_zero_def is_zero_def)
  have "same_value_zero (fadd s (ToNumber h (js_or (JNum m) (JNum (Fin 0)))))
          (fadd s' (if m = NaN then Fin 0 else m))"
    using Cons.prems(2) c by (rule fadd_svz_cong)
  moreover have "ToNumber h (JNum m) = m" by (simp add: ToNumber_def)
  ultimately show ?case
    using Cons.IH [of "fadd s (ToNumber h (js_or (JNum m) (JNum (Fin 0))))"
                      "fadd s' (if m = NaN then Fin 0 else m)"] Cons.prems(1)
    by (cases "m = NaN") (auto simp: get_prop_opt [OF np] m Let_def)
qed


section \<open>Validation: properties\<close>

text \<open>
  Claim C3.  \<open>validatePayload\<close> rejects the empty object; it accepts an object whose only
  property is an empty \<open>equity_series\<close> and returns it with \<open>positions\<close> set to the empty
  array; it rejects every value that is not an object, and every object whose
  \<open>equity_series\<close> is present but is not an array.
\<close>

theorem validatePayload_contract:
  "validatePayload (JObj []) = Inl (Error ''Missing \"equity_series\" array.'')
   \<and> validatePayload (JObj [(''equity_series'', JArr [])])
       = Inr (JObj [(''equity_series'', JArr []), (''positions'', JArr [])])
   \<and> ((\<forall>kv. data \<noteq> JObj kv) \<longrightarrow> (\<exists>e. validatePayload data = Inl e))
   \<and> (map_of kv ''equity_series'' = Some s \<and> \<not> is_array s
        \<longrightarrow> validatePayload (JObj kv) = Inl (Error ''\"equity_series\" must be an array.''))"
  by (cases data)
     (simp_all add: validatePayload_def has_prop_def get_prop_def is_array_def
                    typeof_object_def)

theorem validatePayload_contract_witness:
  "(\<forall>kv. JStr ''x'' \<noteq> JObj kv) \<and> (\<exists>e. validatePayload (JStr ''x'') = Inl e)
   \<and> map_of [(''equity_series'', JNum (Fin 3))] ''equity_series'' = Some (JNum (Fin 3))
   \<and> \<not> is_array (JNum (Fin 3))
   \<and> validatePayload (JObj [(''equity_series'', JNum (Fin 3))])
       = Inl (Error ''\"equity_series\" must be an array.'')"
  using validatePayload_contract
          [of "JStr ''x''" "[(''equity_series'', JNum (Fin 3))]" "JNum (Fin 3)"]
  by (simp add: is_array_def)


section \<open>The chart: properties\<close>

text \<open>
  Claim C4.  On a series that is not an array, or has fewer than two points, \<open>drawChart\<close>
  (of script.js and of app.js) leaves the chart with no child at all, so with no path, no
  grid line, no marker and no label, and hides the chart area; it does not throw.
\<close>

theorem drawChart_short_series_hidden:
  assumes "\<not> (\<exists>ps. series = JArr ps \<and> 2 \<le> length ps)"
  shows "drawChart h series chart
           = (chart\<lparr>chart_children := [], chartWrap_display := ''none''\<rparr>, None)
         \<and> drawChart_app h series chart
           = (chart\<lparr>chart_children := [], chartWrap_display := ''none''\<rparr>, None)"
  using assms
  by (cases series) (auto simp: drawChart_def drawChart_app_def drawChart_on_def Let_def)

theorem drawChart_short_series_hidden_witness:
  "\<not> (\<exists>ps. JArr [JObj [(''equity'', JNum (Fin 5))]] = JArr ps \<and> 2 \<le> length ps)
   \<and> drawChart offline_host (JArr [JObj [(''equity'', JNum (Fin 5))]])
        \<lparr>chart_children = [SvgCircle (Fin 1) (Fin 2) (Fin 3) ''red''],
         chart_viewBox = None, chartWrap_display = []\<rparr>
      = (\<lparr>chart_children = [], chart_viewBox = None, chartWrap_display = ''none''\<rparr>, None)"
  using drawChart_short_series_hidden
          [of "JArr [JObj [(''equity'', JNum (Fin 5))]]" offline_host
              "\<lparr>chart_children = [SvgCircle (Fin 1) (Fin 2) (Fin 3) ''red''],
                chart_viewBox = None, chartWrap_display = []\<rparr>"]
  by simp

text \<open>
  Claim C9.  \<open>drawChart\<close> removes every earlier child of the chart before it draws: the
  children it leaves do not depend on the chart it starts from, and a second call with the
  same series leaves the chart, and returns, exactly as the first call did.
\<close>

theorem drawChart_idempotent:
  "drawChart h series (fst (drawChart h series chart)) = drawChart h series chart
   \<and> drawChart_app h series (fst (drawChart_app h series chart)) = drawChart_app h series chart
   \<and> chart_children (fst (drawChart h series chart))
       = chart_children (fst (drawChart h series chart'))
   \<and> chart_children (fst (drawChart_app h series chart))
       = chart_children (fst (drawChart_app h series chart'))"
  by (cases series)
     (auto simp: drawChart_def drawChart_app_def drawChart_on_def Let_def split: sum.splits)

theorem drawChart_idempotent_witness:
  "drawChart offline_host (JArr [JObj [(''equity'', JNum (Fin 1))], JObj [(''equity'', JNum (Fin 3))]])
     (fst (drawChart offline_host
             (JArr [JObj [(''equity'', JNum (Fin 1))], JObj [(''equity'', JNum (Fin 3))]])
             \<lparr>chart_children = [SvgCircle (Fin 1) (Fin 2) (Fin 3) ''red''],
              chart_viewBox = None, chartWrap_display = ''none''\<rparr>))
   = drawChart offline_host
       (JArr [JObj [(''equity'', JNum (Fin 1))], JObj [(''equity'', JNum (Fin 3))]])
       \<lparr>chart_children = [SvgCircle (Fin 1) (Fin 2) (Fin 3) ''red''],
        chart_viewBox = None, chartWrap_display = ''none''\<rparr>"
  using drawChart_idempotent
          [of offline_host
              "JArr [JObj [(''equity'', JNum (Fin 1))], JObj [(''equity'', JNum (Fin 3))]]"
              "\<lparr>chart_children = [SvgCircle (Fin 1) (Fin 2) (Fin 3) ''red''],
                chart_viewBox = None, chartWrap_display = ''none''\<rparr>"]
  by blast



text \<open>
  A point with no \<open>equity\<close> at all is not a point of the data model.  On such a last point
  the filter of \<open>drawChart\<close> drops the NaN before \<open>last\<close> is read: the path ends at
  \<open>(782, NaN)\<close> and the marker is drawn at \<open>(782, 202)\<close>, the height of the last value that
  is a number.
\<close>

lemma drawChart_point_without_equity:
  "path_vertices (chart_children (fst (drawChart offline_host
      (JArr [JObj [(''date'', JStr ''2024-01-02''), (''equity'', JNum (Fin 1))],
             JObj [(''date'', JStr ''2024-01-03'')]])
      \<lparr>chart_children = [], chart_viewBox = None, chartWrap_display = []\<rparr>)))
     = [[(Fin 18, Fin 202), (Fin 782, NaN)]]
   \<and> circle_centres (chart_children (fst (drawChart offline_host
      (JArr [JObj [(''date'', JStr ''2024-01-02''), (''equity'', JNum (Fin 1))],
             JObj [(''date'', JStr ''2024-01-03'')]])
      \<lparr>chart_children = [], chart_viewBox = None, chartWrap_display = []\<rparr>)))
     = [(Fin 782, Fin 202)]"
  by (simp add: drawChart_def drawChart_on_def chart_nodes_def spread_call_def offline_host_def
       get_prop_def ToNumber_def Math_min_def Math_max_def xScale_def yScale_def W_def H_def
       PAD_def num_eval enumerate_eq_zip)




section \<open>Live prices: properties\<close>

text \<open>
  Claim C8.  When the request succeeds and the response holds an array of closes,
  \<open>getLivePrice\<close> returns \<open>Number\<close> of the last entry that is neither \<open>null\<close> nor
  \<open>undefined\<close>, and throws when there is no such entry (every entry is \<open>null\<close>, or the
  array is empty); it throws as well when the response holds no closes at all.
\<close>

theorem getLivePrice_last_non_null:
  assumes "fetchWithTimeout h i ticker = Inr data"
  shows "(quote_close data = JArr closes \<longrightarrow>
            getLivePrice h i ticker =
              Some (if filter (\<lambda>c. \<not> nullish c) closes = [] then Inl (NoPrice ticker)
                    else Inr (ToNumber h (last (filter (\<lambda>c. \<not> nullish c) closes)))))
       \<and> (nullish (quote_close data) \<longrightarrow> getLivePrice h i ticker = Some (Inl (NoPrice ticker)))"
proof (intro conjI impI)
  assume c: "quote_close data = JArr closes"
  then have "quote_closes data = JArr closes" by (simp add: quote_closes_def js_or_def)
  then show "getLivePrice h i ticker =
              Some (if filter (\<lambda>c. \<not> nullish c) closes = [] then Inl (NoPrice ticker)
                    else Inr (ToNumber h (last (filter (\<lambda>c. \<not> nullish c) closes))))"
    using assms scan_closes_take [of "length closes" closes]
    by (simp add: getLivePrice_def)
next
  assume "nullish (quote_close data)"
  then have "quote_closes data = JArr []" by (auto simp: quote_closes_def js_or_def nullish_def)
  then show "getLivePrice h i ticker = Some (Inl (NoPrice ticker))"
    using assms by (simp add: getLivePrice_def)
qed

theorem getLivePrice_last_non_null_witness:
  "fetchWithTimeout demo_host 0 (JStr ''A'')
     = Inr (quote_response [JNum (Fin 149), JNull, JNum (Fin 150), JNull])
   \<and> quote_close (quote_response [JNum (Fin 149), JNull, JNum (Fin 150), JNull])
       = JArr [JNum (Fin 149), JNull, JNum (Fin 150), JNull]
   \<and> getLivePrice demo_host 0 (JStr ''A'') = Some (Inr (Fin 150))
   \<and> fetchWithTimeout demo_host 1 (JStr ''ZZZ'')
       = Inr (JObj [(''chart'', JObj [(''result'', JNull),
                                      (''error'', JObj [(''code'', JStr ''Not Found'')])])])
   \<and> nullish (quote_close (JObj [(''chart'', JObj [(''result'', JNull),
                                      (''error'', JObj [(''code'', JStr ''Not Found'')])])]))
   \<and> getLivePrice demo_host 1 (JStr ''ZZZ'') = Some (Inl (NoPrice (JStr ''ZZZ'')))"
proof -
  have f: "fetchWithTimeout demo_host 0 (JStr ''A'')
             = Inr (quote_response [JNum (Fin 149), JNull, JNum (Fin 150), JNull])"
    by (simp add: demo_host_def)
  have c: "quote_close (quote_response [JNum (Fin 149), JNull, JNum (Fin 150), JNull])
             = JArr [JNum (Fin 149), JNull, JNum (Fin 150), JNull]"
    by (simp add: quote_response_def quote_close_def opt_prop_def opt_first_def)
  from getLivePrice_last_non_null [OF f, of "[JNum (Fin 149), JNull, JNum (Fin 150), JNull]"] c
  have p: "getLivePrice demo_host 0 (JStr ''A'') = Some (Inr (Fin 150))"
    by (simp add: nullish_def ToNumber_def)
  have g: "fetchWithTimeout demo_host 1 (JStr ''ZZZ'')
       = Inr (JObj [(''chart'', JObj [(''result'', JNull),
                                      (''error'', JObj [(''code'', JStr ''Not Found'')])])])"
    by (simp add: demo_host_def)
  have n: "nullish (quote_close (JObj [(''chart'', JObj [(''result'', JNull),
                                      (''error'', JObj [(''code'', JStr ''Not Found'')])])]))"
    by (simp add: quote_close_def opt_prop_def opt_first_def nullish_def)
  from getLivePrice_last_non_null [OF g] n
  have q: "getLivePrice demo_host 1 (JStr ''ZZZ'') = Some (Inl (NoPrice (JStr ''ZZZ'')))"
    by simp
  from f c p g n q show ?thesis by simp
qed


section \<open>Enrichment: properties\<close>

text \<open>
  Claim C1.  For positions that are objects, every price request of which settles,
  \<open>enrichPositionsWithLivePrices\<close> returns a sequence of the same length and order and
  never throws.  Each result keeps every property of its position but the three derived
  ones.  When the price request of a position succeeds with \<open>P\<close>, its \<open>current_price\<close> is
  \<open>P\<close> and, for a position whose \<open>qty\<close> and \<open>avg_price\<close> are numbers, its \<open>market_value\<close> is
  \<open>qty * P\<close> and its \<open>unrealized_pl\<close> is \<open>(P - avg_price) * qty\<close>: exactly when neither number
  is \<open>-0\<close>, and as numbers (the sign of a zero apart) in any case.  When the request fails,
  the three derived properties are \<open>0\<close>.
\<close>

theorem enrichPositions_contract:
  assumes "\<forall>p\<in>set ps. \<exists>kv. p = JObj kv"
    and "\<forall>i<length ps. getLivePrice h i (opt_prop (ps ! i) ''ticker'') \<noteq> None"
  shows "\<exists>rs. enrichPositionsWithLivePrices h ps = Some (Inr rs) \<and> length rs = length ps
           \<and> (\<forall>i<length ps.
                 (\<forall>k. k \<notin> {''current_price'', ''market_value'', ''unrealized_pl''} \<longrightarrow>
                        opt_prop (rs ! i) k = opt_prop (ps ! i) k)
               \<and> (\<forall>P. getLivePrice h i (opt_prop (ps ! i) ''ticker'') = Some (Inr P) \<longrightarrow>
                      opt_prop (rs ! i) ''current_price'' = JNum P
                    \<and> (\<forall>q a. opt_prop (ps ! i) ''qty'' = JNum q \<and> q \<noteq> NaN
                             \<and> opt_prop (ps ! i) ''avg_price'' = JNum a \<and> a \<noteq> NaN \<longrightarrow>
                          (\<exists>m u. opt_prop (rs ! i) ''market_value'' = JNum m
                                \<and> same_value_zero m (fmul q P)
                                \<and> opt_prop (rs ! i) ''unrealized_pl'' = JNum u
                                \<and> same_value_zero u (fmul (fsub P a) q)
                                \<and> (q \<noteq> NegZero \<and> a \<noteq> NegZero \<longrightarrow>
                                       m = fmul q P \<and> u = fmul (fsub P a) q))))
               \<and> (\<forall>e. getLivePrice h i (opt_prop (ps ! i) ''ticker'') = Some (Inl e) \<longrightarrow>
                      opt_prop (rs ! i) ''current_price'' = JNum (Fin 0)
                    \<and> opt_prop (rs ! i) ''market_value'' = JNum (Fin 0)
                    \<and> opt_prop (rs ! i) ''unrealized_pl'' = JNum (Fin 0)))"
proof -
  from enrich_result [OF assms] obtain rs where rs:
    "enrichPositionsWithLivePrices h ps = Some (Inr rs)" "length rs = length ps"
    "\<forall>i<length ps.
        (\<forall>P. getLivePrice h i (opt_prop (ps ! i) ''ticker'') = Some (Inr P) \<longrightarrow>
           rs ! i = with_derived (ps ! i) P
             (fmul (ToNumber h (js_or (opt_prop (ps ! i) ''qty'') (JNum (Fin 0)))) P)
             (fmul (fsub P (ToNumber h (js_or (opt_prop (ps ! i) ''avg_price'') (JNum (Fin 0)))))
                   (ToNumber h (js_or (opt_prop (ps ! i) ''qty'') (JNum (Fin 0))))))
      \<and> (\<forall>e. getLivePrice h i (opt_prop (ps ! i) ''ticker'') = Some (Inl e) \<longrightarrow>
           rs ! i = with_derived (ps ! i) (Fin 0) (Fin 0) (Fin 0))"
    by blast
  have "(\<forall>k. k \<notin> {''current_price'', ''market_value'', ''unrealized_pl''} \<longrightarrow>
                        opt_prop (rs ! i) k = opt_prop (ps ! i) k)
               \<and> (\<forall>P. getLivePrice h i (opt_prop (ps ! i) ''ticker'') = Some (Inr P) \<longrightarrow>
                      opt_prop (rs ! i) ''current_price'' = JNum P
                    \<and> (\<forall>q a. opt_prop (ps ! i) ''qty'' = JNum q \<and> q \<noteq> NaN
                             \<and> opt_prop (ps ! i) ''avg_price'' = JNum a \<and> a \<noteq> NaN \<longrightarrow>
                          (\<exists>m u. opt_prop (rs ! i) ''market_value'' = JNum m
                                \<and> same_value_zero m (fmul q P)
                                \<and> opt_prop (rs ! i) ''unrealized_pl'' = JNum u
                                \<and> same_value_zero u (fmul (fsub P a) q)
                                \<and> (q \<noteq> NegZero \<and> a \<noteq> NegZero \<longrightarrow>
                                       m = fmul q P \<and> u = fmul (fsub P a) q))))
               \<and> (\<forall>e. getLivePrice h i (opt_prop (ps ! i) ''ticker'') = Some (Inl e) \<longrightarrow>
                      opt_prop (rs ! i) ''current_price'' = JNum (Fin 0)
                    \<and> opt_prop (rs ! i) ''market_value'' = JNum (Fin 0)
                    \<and> opt_prop (rs ! i) ''unrealized_pl'' = JNum (Fin 0))"
    if i: "i < length ps" for i
  proof -
    from i obtain kv where kv: "ps ! i = JObj kv" using assms(1) nth_mem by blast
    from assms(2) i obtain out where out: "getLivePrice h i (opt_prop (ps ! i) ''ticker'') = Some out"
      by auto
    show ?thesis
    proof (cases out)
      case (Inl e)
      with rs(3) i out have "rs ! i = with_derived (JObj kv) (Fin 0) (Fin 0) (Fin 0)"
        by (simp add: kv)
      then show ?thesis using out Inl by (simp add: kv opt_prop_with_derived)
    next
      case (Inr P)
      with rs(3) i out have r: "rs ! i = with_derived (JObj kv) P
             (fmul (ToNumber h (js_or (opt_prop (JObj kv) ''qty'') (JNum (Fin 0)))) P)
             (fmul (fsub P (ToNumber h (js_or (opt_prop (JObj kv) ''avg_price'') (JNum (Fin 0)))))
                   (ToNumber h (js_or (opt_prop (JObj kv) ''qty'') (JNum (Fin 0)))))"
        by (simp add: kv)
      have num: "same_value_zero (fmul (ToNumber h (js_or (JNum q) (JNum (Fin 0)))) P) (fmul q P)
          \<and> same_value_zero
               (fmul (fsub P (ToNumber h (js_or (JNum a) (JNum (Fin 0)))))
                     (ToNumber h (js_or (JNum q) (JNum (Fin 0)))))
               (fmul (fsub P a) q)"
        if "q \<noteq> NaN" "a \<noteq> NaN" for q a
        using that
        by (intro conjI fmul_svz_cong fsub_svz_cong coerce_number same_value_zero_refl)
      have exact: "ToNumber h (js_or (JNum q) (JNum (Fin 0))) = q"
        if "q \<noteq> NaN" "q \<noteq> NegZero" for q
        using that by (auto simp: js_or_def ToNumber_def truthy_num_def is_zero_def)
      show ?thesis
        using out Inr num exact by (auto simp: kv r opt_prop_with_derived)
    qed
  qed
  with rs(1,2) show ?thesis by blast
qed

theorem enrichPositions_contract_witness:
  "getLivePrice demo_host 0 (JStr ''A'') = Some (Inr (Fin 150))
   \<and> getLivePrice demo_host 1 (JStr ''B'') = Some (Inl (RequestFailed ''HTTP 404''))
   \<and> (\<exists>rs. enrichPositionsWithLivePrices demo_host
              [JObj [(''ticker'', JStr ''A''), (''qty'', JNum (Fin 2)), (''avg_price'', JNum (Fin 100))],
               JObj [(''ticker'', JStr ''B''), (''qty'', JNum (Fin 1)), (''avg_price'', JNum (Fin 50))]]
            = Some (Inr rs)
          \<and> length rs = 2
          \<and> opt_prop (rs ! 0) ''ticker'' = JStr ''A''
          \<and> opt_prop (rs ! 0) ''current_price'' = JNum (Fin 150)
          \<and> opt_prop (rs ! 0) ''market_value'' = JNum (Fin 300)
          \<and> opt_prop (rs ! 0) ''unrealized_pl'' = JNum (Fin 100)
          \<and> opt_prop (rs ! 1) ''ticker'' = JStr ''B''
          \<and> opt_prop (rs ! 1) ''qty'' = JNum (Fin 1)
          \<and> opt_prop (rs ! 1) ''current_price'' = JNum (Fin 0)
          \<and> opt_prop (rs ! 1) ''market_value'' = JNum (Fin 0)
          \<and> opt_prop (rs ! 1) ''unrealized_pl'' = JNum (Fin 0))"
proof -
  let ?A = "JObj [(''ticker'', JStr ''A''), (''qty'', JNum (Fin 2)), (''avg_price'', JNum (Fin 100))]"
  let ?B = "JObj [(''ticker'', JStr ''B''), (''qty'', JNum (Fin 1)), (''avg_price'', JNum (Fin 50))]"
  have objs: "\<forall>p\<in>set [?A, ?B]. \<exists>kv. p = JObj kv" by simp
  have ends: "\<forall>i<length [?A, ?B]. getLivePrice demo_host i (opt_prop ([?A, ?B] ! i) ''ticker'') \<noteq> None"
    by (simp add: less_Suc_eq opt_prop_def demo_price_A demo_price_B)
  from enrichPositions_contract [OF objs ends] obtain rs where rs:
    "enrichPositionsWithLivePrices demo_host [?A, ?B] = Some (Inr rs)" "length rs = length [?A, ?B]"
    and each: "\<forall>i<length [?A, ?B].
                 (\<forall>k. k \<notin> {''current_price'', ''market_value'', ''unrealized_pl''} \<longrightarrow>
                        opt_prop (rs ! i) k = opt_prop ([?A, ?B] ! i) k)
               \<and> (\<forall>P. getLivePrice demo_host i (opt_prop ([?A, ?B] ! i) ''ticker'') = Some (Inr P) \<longrightarrow>
                      opt_prop (rs ! i) ''current_price'' = JNum P
                    \<and> (\<forall>q a. opt_prop ([?A, ?B] ! i) ''qty'' = JNum q \<and> q \<noteq> NaN
                             \<and> opt_prop ([?A, ?B] ! i) ''avg_price'' = JNum a \<and> a \<noteq> NaN \<longrightarrow>
                          (\<exists>m u. opt_prop (rs ! i) ''market_value'' = JNum m
                                \<and> same_value_zero m (fmul q P)
                                \<and> opt_prop (rs ! i) ''unrealized_pl'' = JNum u
                                \<and> same_value_zero u (fmul (fsub P a) q)
                                \<and> (q \<noteq> NegZero \<and> a \<noteq> NegZero \<longrightarrow>
                                       m = fmul q P \<and> u = fmul (fsub P a) q))))
               \<and> (\<forall>e. getLivePrice demo_host i (opt_prop ([?A, ?B] ! i) ''ticker'') = Some (Inl e) \<longrightarrow>
                      opt_prop (rs ! i) ''current_price'' = JNum (Fin 0)
                    \<and> opt_prop (rs ! i) ''market_value'' = JNum (Fin 0)
                    \<and> opt_prop (rs ! i) ''unrealized_pl'' = JNum (Fin 0))"
    by blast
  from each [rule_format, of 0] have a:
    "opt_prop (rs ! 0) ''ticker'' = JStr ''A''"
    "opt_prop (rs ! 0) ''current_price'' = JNum (Fin 150)"
    "opt_prop (rs ! 0) ''market_value'' = JNum (Fin 300)"
    "opt_prop (rs ! 0) ''unrealized_pl'' = JNum (Fin 100)"
    by (auto simp: opt_prop_def demo_price_A e300 e100 same_value_zero_def is_zero_def)
  from each [rule_format, of 1] have b:
    "opt_prop (rs ! 1) ''ticker'' = JStr ''B''"
    "opt_prop (rs ! 1) ''qty'' = JNum (Fin 1)"
    "opt_prop (rs ! 1) ''current_price'' = JNum (Fin 0)"
    "opt_prop (rs ! 1) ''market_value'' = JNum (Fin 0)"
    "opt_prop (rs ! 1) ''unrealized_pl'' = JNum (Fin 0)"
    by (auto simp: opt_prop_def demo_price_B)
  from rs a b show ?thesis by (simp add: demo_price_A demo_price_B)
qed

text \<open>
  Claim C10, as amended.  When the price request of a position succeeds with \<open>P\<close>, a
  falsy \<open>qty\<close> (missing, \<open>null\<close>, \<open>0\<close>, NaN, empty) counts as \<open>0\<close>: \<open>market_value\<close> is
  \<open>0 * P\<close> and \<open>unrealized_pl\<close> is \<open>(P - avg) * 0\<close>, which are zero when \<open>P\<close>, respectively
  \<open>P - avg\<close>, is finite, and NaN when it is not.  A falsy \<open>avg_price\<close> counts as \<open>0\<close>:
  \<open>unrealized_pl\<close> is \<open>P * qty\<close>.  Here \<open>qty\<close> and \<open>avg\<close> are \<open>Number(qty || 0)\<close> and
  \<open>Number(avg_price || 0)\<close>.
\<close>

theorem enrich_coerces_falsy_fields:
  assumes "\<forall>p\<in>set ps. \<exists>kv. p = JObj kv"
    and "\<forall>i<length ps. getLivePrice h i (opt_prop (ps ! i) ''ticker'') \<noteq> None"
  shows "\<exists>rs. enrichPositionsWithLivePrices h ps = Some (Inr rs) \<and> length rs = length ps
           \<and> (\<forall>i<length ps. \<forall>P.
                 getLivePrice h i (opt_prop (ps ! i) ''ticker'') = Some (Inr P) \<longrightarrow>
                 (\<exists>m u. opt_prop (rs ! i) ''current_price'' = JNum P
                       \<and> opt_prop (rs ! i) ''market_value'' = JNum m
                       \<and> opt_prop (rs ! i) ''unrealized_pl'' = JNum u
                       \<and> (\<not> truthy (opt_prop (ps ! i) ''qty'') \<longrightarrow>
                            m = fmul (Fin 0) P
                          \<and> u = fmul (fsub P (ToNumber h (js_or (opt_prop (ps ! i) ''avg_price'')
                                                                 (JNum (Fin 0))))) (Fin 0)
                          \<and> (if is_finite P then is_zero m else m = NaN)
                          \<and> (if is_finite (fsub P (ToNumber h (js_or (opt_prop (ps ! i) ''avg_price'')
                                                                      (JNum (Fin 0)))))
                              then is_zero u else u = NaN))
                       \<and> (\<not> truthy (opt_prop (ps ! i) ''avg_price'') \<longrightarrow>
                            u = fmul P (ToNumber h (js_or (opt_prop (ps ! i) ''qty'')
                                                          (JNum (Fin 0)))))))"
proof -
  from enrich_result [OF assms] obtain rs where rs:
    "enrichPositionsWithLivePrices h ps = Some (Inr rs)" "length rs = length ps"
    "\<forall>i<length ps.
        (\<forall>P. getLivePrice h i (opt_prop (ps ! i) ''ticker'') = Some (Inr P) \<longrightarrow>
           rs ! i = with_derived (ps ! i) P
             (fmul (ToNumber h (js_or (opt_prop (ps ! i) ''qty'') (JNum (Fin 0)))) P)
             (fmul (fsub P (ToNumber h (js_or (opt_prop (ps ! i) ''avg_price'') (JNum (Fin 0)))))
                   (ToNumber h (js_or (opt_prop (ps ! i) ''qty'') (JNum (Fin 0))))))
      \<and> (\<forall>e. getLivePrice h i (opt_prop (ps ! i) ''ticker'') = Some (Inl e) \<longrightarrow>
           rs ! i = with_derived (ps ! i) (Fin 0) (Fin 0) (Fin 0))"
    by blast
  have "\<exists>m u. opt_prop (rs ! i) ''current_price'' = JNum P
                       \<and> opt_prop (rs ! i) ''market_value'' = JNum m
                       \<and> opt_prop (rs ! i) ''unrealized_pl'' = JNum u
                       \<and> (\<not> truthy (opt_prop (ps ! i) ''qty'') \<longrightarrow>
                            m = fmul (Fin 0) P
                          \<and> u = fmul (fsub P (ToNumber h (js_or (opt_prop (ps ! i) ''avg_price'')
                                                                 (JNum (Fin 0))))) (Fin 0)
                          \<and> (if is_finite P then is_zero m else m = NaN)
                          \<and> (if is_finite (fsub P (ToNumber h (js_or (opt_prop (ps ! i) ''avg_price'')
                                                                      (JNum (Fin 0)))))
                              then is_zero u else u = NaN))
                       \<and> (\<not> truthy (opt_prop (ps ! i) ''avg_price'') \<longrightarrow>
                            u = fmul P (ToNumber h (js_or (opt_prop (ps ! i) ''qty'')
                                                          (JNum (Fin 0)))))"
    if i: "i < length ps" and P: "getLivePrice h i (opt_prop (ps ! i) ''ticker'') = Some (Inr P)"
    for i P
  proof -
    from i obtain kv where kv: "ps ! i = JObj kv" using assms(1) nth_mem by blast
    from rs(3) i P have r: "rs ! i = with_derived (JObj kv) P
             (fmul (ToNumber h (js_or (opt_prop (JObj kv) ''qty'') (JNum (Fin 0)))) P)
             (fmul (fsub P (ToNumber h (js_or (opt_prop (JObj kv) ''avg_price'') (JNum (Fin 0)))))
                   (ToNumber h (js_or (opt_prop (JObj kv) ''qty'') (JNum (Fin 0)))))"
      by (simp add: kv)
    show ?thesis
      unfolding kv r
      by (simp add: opt_prop_with_derived coerce_falsy fmul_zero_finite_left
            fmul_zero_finite_right fmul_zero_not_finite_left fmul_zero_not_finite_right)
  qed
  with rs(1,2) show ?thesis by blast
qed

theorem enrich_coerces_falsy_fields_witness:
  "getLivePrice demo_host 0 (JStr ''A'') = Some (Inr (Fin 150))
   \<and> getLivePrice demo_host 1 (JStr ''A'') = Some (Inr (Fin 150))
   \<and> \<not> truthy (opt_prop (JObj [(''ticker'', JStr ''A''), (''avg_price'', JNum (Fin 100))]) ''qty'')
   \<and> \<not> truthy (opt_prop (JObj [(''ticker'', JStr ''A''), (''qty'', JNum (Fin 2))]) ''avg_price'')
   \<and> is_finite (Fin 150) \<and> is_finite (fsub (Fin 150) (Fin 100))
   \<and> (\<exists>rs. enrichPositionsWithLivePrices demo_host
              [JObj [(''ticker'', JStr ''A''), (''avg_price'', JNum (Fin 100))],
               JObj [(''ticker'', JStr ''A''), (''qty'', JNum (Fin 2))]]
            = Some (Inr rs)
          \<and> length rs = 2
          \<and> opt_prop (rs ! 0) ''current_price'' = JNum (Fin 150)
          \<and> opt_prop (rs ! 0) ''market_value'' = JNum (Fin 0)
          \<and> opt_prop (rs ! 0) ''unrealized_pl'' = JNum (Fin 0)
          \<and> opt_prop (rs ! 1) ''current_price'' = JNum (Fin 150)
          \<and> opt_prop (rs ! 1) ''unrealized_pl'' = JNum (Fin 300))"
proof -
  let ?p = "JObj [(''ticker'', JStr ''A''), (''avg_price'', JNum (Fin 100))]"
  let ?q = "JObj [(''ticker'', JStr ''A''), (''qty'', JNum (Fin 2))]"
  have objs: "\<forall>p\<in>set [?p, ?q]. \<exists>kv. p = JObj kv" by simp
  have ends: "\<forall>i<length [?p, ?q]. getLivePrice demo_host i (opt_prop ([?p, ?q] ! i) ''ticker'') \<noteq> None"
    by (simp add: less_Suc_eq opt_prop_def demo_price_A)
  have fin: "is_finite (Fin 150)" "is_finite (fsub (Fin 150) (Fin 100))"
    by (simp_all add: is_finite_def is_inf_def num_eval)
  have falsy: "\<not> truthy (opt_prop ?p ''qty'')" "\<not> truthy (opt_prop ?q ''avg_price'')"
    by (simp_all add: opt_prop_def)
  have e1: "fmul (Fin 0) (Fin 150) = Fin 0" by (simp add: num_eval)
  have e2: "fmul (fsub (Fin 150) (Fin 100)) (Fin 0) = Fin 0" by (simp add: num_eval)
  have e3: "fmul (Fin 150) (Fin 2) = Fin 300" by (simp add: num_eval)
  from enrich_coerces_falsy_fields [OF objs ends] obtain rs where rs:
    "enrichPositionsWithLivePrices demo_host [?p, ?q] = Some (Inr rs)" "length rs = length [?p, ?q]"
    and each: "\<forall>i<length [?p, ?q]. \<forall>P.
                 getLivePrice demo_host i (opt_prop ([?p, ?q] ! i) ''ticker'') = Some (Inr P) \<longrightarrow>
                 (\<exists>m u. opt_prop (rs ! i) ''current_price'' = JNum P
                       \<and> opt_prop (rs ! i) ''market_value'' = JNum m
                       \<and> opt_prop (rs ! i) ''unrealized_pl'' = JNum u
                       \<and> (\<not> truthy (opt_prop ([?p, ?q] ! i) ''qty'') \<longrightarrow>
                            m = fmul (Fin 0) P
                          \<and> u = fmul (fsub P (ToNumber demo_host (js_or (opt_prop ([?p, ?q] ! i) ''avg_price'')
                                                                 (JNum (Fin 0))))) (Fin 0)
                          \<and> (if is_finite P then is_zero m else m = NaN)
                          \<and> (if is_finite (fsub P (ToNumber demo_host (js_or (opt_prop ([?p, ?q] ! i) ''avg_price'')
                                                                      (JNum (Fin 0)))))
                              then is_zero u else u = NaN))
                       \<and> (\<not> truthy (opt_prop ([?p, ?q] ! i) ''avg_price'') \<longrightarrow>
                            u = fmul P (ToNumber demo_host (js_or (opt_prop ([?p, ?q] ! i) ''qty'')
                                                          (JNum (Fin 0))))))"
    by blast
  from each [rule_format, of 0 "Fin 150"] have a:
    "opt_prop (rs ! 0) ''current_price'' = JNum (Fin 150)"
    "opt_prop (rs ! 0) ''market_value'' = JNum (Fin 0)"
    "opt_prop (rs ! 0) ''unrealized_pl'' = JNum (Fin 0)"
    by (auto simp: opt_prop_def demo_price_A js_or_def ToNumber_def truthy_num_def is_zero_def e1 e2)
  from each [rule_format, of 1 "Fin 150"] have b:
    "opt_prop (rs ! 1) ''current_price'' = JNum (Fin 150)"
    "opt_prop (rs ! 1) ''unrealized_pl'' = JNum (Fin 300)"
    by (auto simp: opt_prop_def demo_price_A js_or_def ToNumber_def truthy_num_def is_zero_def e3)
  from rs a b fin falsy show ?thesis by (simp add: demo_price_A)
qed

text \<open>
  Claim C10 as stated fails.  A position with no \<open>qty\<close> whose price request succeeds with
  \<open>Infinity\<close> gets the \<open>market_value\<close> NaN (\<open>0 * Infinity\<close>) and the \<open>unrealized_pl\<close> NaN.
\<close>

theorem enrich_missing_qty_counterexample:
  "enrichPositionsWithLivePrices overflow_host
     [JObj [(''ticker'', JStr ''A''), (''avg_price'', JNum (Fin 100))]]
   = Some (Inr [JObj [(''ticker'', JStr ''A''), (''avg_price'', JNum (Fin 100)),
                      (''current_price'', JNum PosInf), (''market_value'', JNum NaN),
                      (''unrealized_pl'', JNum NaN)]])"
  by (simp add: enrich_eval overflow_price fmul_def fsub_def is_inf_def is_zero_def)


section \<open>KPIs: properties\<close>

text \<open>
  Claim C7.  A relative percentage is exactly \<open>0\<close> when its denominator is zero.  For a
  position whose \<open>avg_price\<close> is a number, the percentage of its row in \<open>renderPositions\<close>,
  and of the single-ticker panel of \<open>renderKpis\<close>, is
  \<open>(current_price - avg_price) / avg_price * 100\<close> when \<open>avg_price\<close> is not zero and \<open>0\<close> when
  it is; for a payload whose \<open>invested_cost_basis\<close> is a number, the portfolio percentage
  is \<open>(value - cost_basis) / cost_basis * 100\<close> when the cost basis is not zero and \<open>0\<close>
  when it is, and it is \<open>0\<close> as well when the payload has no cost basis.
\<close>

theorem percent_zero_denominator:
  "(renderPositions h (JArr ps) = Inr rows \<and> i < length ps
      \<and> opt_prop (ps ! i) ''avg_price'' = JNum a \<and> a \<noteq> NaN
      \<longrightarrow> row_plPct (rows ! i) =
            (if is_zero a then Fin 0
             else fmul (fdiv (fsub (ToNumber h (opt_prop (ps ! i) ''current_price'')) a) a)
                       (Fin 100)))
   \<and> (renderKpis h payload qs = Inr kp
        \<and> get_prop payload ''invested_cost_basis'' = Inr (JNum c) \<and> c \<noteq> NaN
      \<longrightarrow> shown_portfolioPct kp =
            (if is_zero c then Fin 0
             else fmul (fdiv (fsub (shown_portfolioValue kp) c) c) (Fin 100)))
   \<and> (renderKpis h payload qs = Inr kp
        \<and> get_prop payload ''invested_cost_basis'' = Inr JUndefined
      \<longrightarrow> shown_portfolioPct kp = Fin 0)
   \<and> (renderKpis h payload' [p] = Inr kp' \<and> opt_prop p ''avg_price'' = JNum a' \<and> a' \<noteq> NaN
      \<longrightarrow> map_option oneTickerPct (shown_oneTicker kp') =
            Some (if is_zero a' then Fin 0
                  else fmul (fdiv (fsub (ToNumber h (opt_prop p ''current_price'')) a') a')
                            (Fin 100)))"
proof (intro conjI impI)
  assume *: "renderPositions h (JArr ps) = Inr rows \<and> i < length ps
      \<and> opt_prop (ps ! i) ''avg_price'' = JNum a \<and> a \<noteq> NaN"
  then have "position_row_of h (ps ! i) = Inr (rows ! i)" using renderPositions_row by blast
  with * show "row_plPct (rows ! i) =
            (if is_zero a then Fin 0
             else fmul (fdiv (fsub (ToNumber h (opt_prop (ps ! i) ''current_price'')) a) a)
                       (Fin 100))"
    using position_row_of_plPct [of h "ps ! i" "rows ! i"] plPct_number [of a h] by simp
next
  assume "renderKpis h payload qs = Inr kp
        \<and> get_prop payload ''invested_cost_basis'' = Inr (JNum c) \<and> c \<noteq> NaN"
  then show "shown_portfolioPct kp =
            (if is_zero c then Fin 0
             else fmul (fdiv (fsub (shown_portfolioValue kp) c) c) (Fin 100))"
    using renderKpis_portfolioPct by blast
next
  assume "renderKpis h payload qs = Inr kp
        \<and> get_prop payload ''invested_cost_basis'' = Inr JUndefined"
  then show "shown_portfolioPct kp = Fin 0"
    using renderKpis_no_basis by blast
next
  assume "renderKpis h payload' [p] = Inr kp' \<and> opt_prop p ''avg_price'' = JNum a' \<and> a' \<noteq> NaN"
  then show "map_option oneTickerPct (shown_oneTicker kp') =
            Some (if is_zero a' then Fin 0
                  else fmul (fdiv (fsub (ToNumber h (opt_prop p ''current_price'')) a') a')
                            (Fin 100))"
    using renderKpis_oneTicker [of h payload' p kp'] plPct_number [of a' h] by simp
qed

theorem percent_zero_denominator_witness:
  "(\<exists>rows. renderPositions offline_host
           (JArr [JObj [(''ticker'', JStr ''A''), (''qty'', JNum (Fin 2)),
                        (''avg_price'', JNum (Fin 0)), (''current_price'', JNum (Fin 150)),
                        (''market_value'', JNum (Fin 300)), (''unrealized_pl'', JNum (Fin 300))]])
           = Inr rows
        \<and> row_plPct (rows ! 0) = Fin 0)
   \<and> (\<exists>kp. renderKpis offline_host
              (JObj [(''equity_series'', JArr []), (''invested_cost_basis'', JNum (Fin 0))])
              [JObj [(''ticker'', JStr ''A''), (''qty'', JNum (Fin 2)),
                     (''avg_price'', JNum (Fin 0)), (''current_price'', JNum (Fin 150)),
                     (''market_value'', JNum (Fin 300)), (''unrealized_pl'', JNum (Fin 300))]]
              = Inr kp
         \<and> shown_portfolioPct kp = Fin 0
         \<and> map_option oneTickerPct (shown_oneTicker kp) = Some (Fin 0))
   \<and> (\<exists>kp. renderKpis offline_host (JObj [(''equity_series'', JArr [])])
              [JObj [(''ticker'', JStr ''A''), (''qty'', JNum (Fin 2)),
                     (''avg_price'', JNum (Fin 0)), (''current_price'', JNum (Fin 150)),
                     (''market_value'', JNum (Fin 300)), (''unrealized_pl'', JNum (Fin 300))]]
              = Inr kp
         \<and> shown_portfolioPct kp = Fin 0)"
proof -
  let ?pos = "JObj [(''ticker'', JStr ''A''), (''qty'', JNum (Fin 2)),
                    (''avg_price'', JNum (Fin 0)), (''current_price'', JNum (Fin 150)),
                    (''market_value'', JNum (Fin 300)), (''unrealized_pl'', JNum (Fin 300))]"
  let ?payload = "JObj [(''equity_series'', JArr []), (''invested_cost_basis'', JNum (Fin 0))]"
  let ?bare = "JObj [(''equity_series'', JArr [])]"
  obtain rows where rows: "renderPositions offline_host (JArr [?pos]) = Inr rows"
    by (simp add: renderPositions_def position_row_of_def nullish_def Let_def)
  have avg: "opt_prop ([?pos] ! 0) ''avg_price'' = JNum (Fin 0)"
    "opt_prop ?pos ''avg_price'' = JNum (Fin 0)"
    by (simp_all add: opt_prop_def)
  have cost: "get_prop ?payload ''invested_cost_basis'' = Inr (JNum (Fin 0))"
    "get_prop ?bare ''invested_cost_basis'' = Inr JUndefined"
    by (simp_all add: get_prop_def)
  obtain kp where kp: "renderKpis offline_host ?payload [?pos] = Inr kp"
    by (simp add: renderKpis_def get_prop_def js_or_def ToNumber_def truthy_num_def is_zero_def
          Let_def)
  obtain kp' where kp': "renderKpis offline_host ?bare [?pos] = Inr kp'"
    by (simp add: renderKpis_def get_prop_def js_or_def ToNumber_def truthy_num_def is_zero_def
          Let_def)
  have z: "is_zero (Fin 0)" by (simp add: is_zero_def)
  from percent_zero_denominator
         [of offline_host "[?pos]" rows 0 "Fin 0" ?payload "[?pos]" kp "Fin 0" ?payload ?pos kp
             "Fin 0"]
       rows avg cost kp z
  have 1: "row_plPct (rows ! 0) = Fin 0" "shown_portfolioPct kp = Fin 0"
       "map_option oneTickerPct (shown_oneTicker kp) = Some (Fin 0)"
    by simp_all
  from percent_zero_denominator
         [of offline_host "[?pos]" rows 0 "Fin 0" ?bare "[?pos]" kp' "Fin 0" ?payload ?pos kp
             "Fin 0"]
       cost kp'
  have 2: "shown_portfolioPct kp' = Fin 0"
    by simp
  from rows kp kp' 1 2 show ?thesis by blast
qed

text \<open>
  Claim C2, as amended.  For a payload that is an object and positions whose
  \<open>market_value\<close> is a number, the total that \<open>renderKpis\<close> shows is, as a number, the
  floating-point sum of the market values accumulated from \<open>0\<close> in the order of the
  sequence, a NaN market value counting as \<open>0\<close>.
\<close>

theorem renderKpis_total_left_to_right:
  assumes "\<not> nullish payload"
    and "\<forall>p\<in>set ps. \<exists>m. opt_prop p ''market_value'' = JNum m"
  shows "\<exists>kp. renderKpis h payload ps = Inr kp
           \<and> same_value_zero (shown_portfolioValue kp)
               (foldl fadd (Fin 0)
                  (map (\<lambda>p. let m = ToNumber h (opt_prop p ''market_value'')
                             in if m = NaN then Fin 0 else m) ps))"
proof -
  from sum_market_value_svz [OF assms(2) same_value_zero_refl, of h "Fin 0"]
  obtain t where t: "sum_market_value h (Fin 0) ps = Inr t"
    "same_value_zero t
       (foldl fadd (Fin 0) (map (\<lambda>p. let m = ToNumber h (opt_prop p ''market_value'')
                                      in if m = NaN then Fin 0 else m) ps))"
    by blast
  have "\<exists>kp. renderKpis h payload ps = Inr kp \<and> shown_portfolioValue kp = t"
    by (simp add: renderKpis_def get_prop_opt [OF assms(1)] t(1) Let_def
             del: sum_market_value.simps)
  with t(2) show ?thesis by auto
qed

theorem renderKpis_total_left_to_right_witness:
  "\<not> nullish (JObj [(''equity_series'', JArr []), (''invested_cost_basis'', JNum (Fin 200))])
   \<and> opt_prop (JObj [(''ticker'', JStr ''A''), (''market_value'', JNum (Fin 300))]) ''market_value''
       = JNum (Fin 300)
   \<and> opt_prop (JObj [(''ticker'', JStr ''B''), (''market_value'', JNum NaN)]) ''market_value''
       = JNum NaN
   \<and> (\<exists>kp. renderKpis offline_host
               (JObj [(''equity_series'', JArr []), (''invested_cost_basis'', JNum (Fin 200))])
               [JObj [(''ticker'', JStr ''A''), (''market_value'', JNum (Fin 300))],
                JObj [(''ticker'', JStr ''B''), (''market_value'', JNum NaN)]] = Inr kp
           \<and> shown_portfolioValue kp = Fin 300)"
proof -
  let ?payload = "JObj [(''equity_series'', JArr []), (''invested_cost_basis'', JNum (Fin 200))]"
  let ?A = "JObj [(''ticker'', JStr ''A''), (''market_value'', JNum (Fin 300))]"
  let ?B = "JObj [(''ticker'', JStr ''B''), (''market_value'', JNum NaN)]"
  have p: "\<not> nullish ?payload" by (simp add: nullish_def)
  have m: "opt_prop ?A ''market_value'' = JNum (Fin 300)" "opt_prop ?B ''market_value'' = JNum NaN"
    by (simp_all add: opt_prop_def)
  then have ms: "\<forall>p\<in>set [?A, ?B]. \<exists>m. opt_prop p ''market_value'' = JNum m" by simp
  from renderKpis_total_left_to_right [OF p ms, of offline_host] obtain kp where
    "renderKpis offline_host ?payload [?A, ?B] = Inr kp"
    "same_value_zero (shown_portfolioValue kp) (Fin 300)"
    by (auto simp: m ToNumber_def)
  then have "\<exists>kp. renderKpis offline_host ?payload [?A, ?B] = Inr kp \<and> shown_portfolioValue kp = Fin 300"
    by (auto simp: same_value_zero_def is_zero_def)
  with p m show ?thesis by simp
qed

text \<open>
  Claim C2 as stated fails: the total depends on the order.  The same three positions, of
  market values \<open>2^53\<close>, \<open>1\<close> and \<open>1\<close>, total \<open>2^53\<close> in this order and \<open>2^53 + 2\<close> with the
  large one last, since \<open>2^53 + 1\<close> rounds back to \<open>2^53\<close>.
\<close>

theorem renderKpis_order_counterexample:
  "renderKpis offline_host (JObj [(''equity_series'', JArr []), (''positions'', JArr [])])
     [JObj [(''ticker'', JStr ''A''), (''qty'', JNum (Fin 9007199254740992)),
            (''avg_price'', JNum (Fin 1)), (''current_price'', JNum (Fin 1)),
            (''market_value'', JNum (Fin 9007199254740992)), (''unrealized_pl'', JNum (Fin 0))],
      JObj [(''ticker'', JStr ''B''), (''qty'', JNum (Fin 1)),
            (''avg_price'', JNum (Fin 1)), (''current_price'', JNum (Fin 1)),
            (''market_value'', JNum (Fin 1)), (''unrealized_pl'', JNum (Fin 0))],
      JObj [(''ticker'', JStr ''C''), (''qty'', JNum (Fin 1)),
            (''avg_price'', JNum (Fin 1)), (''current_price'', JNum (Fin 1)),
            (''market_value'', JNum (Fin 1)), (''unrealized_pl'', JNum (Fin 0))]]
   = Inr \<lparr>shown_portfolioValue = Fin 9007199254740992, shown_portfolioPct = Fin 0,
          shown_portfolioUp = True, shown_oneTicker = None\<rparr>
   \<and> renderKpis offline_host (JObj [(''equity_series'', JArr []), (''positions'', JArr [])])
     [JObj [(''ticker'', JStr ''B''), (''qty'', JNum (Fin 1)),
            (''avg_price'', JNum (Fin 1)), (''current_price'', JNum (Fin 1)),
            (''market_value'', JNum (Fin 1)), (''unrealized_pl'', JNum (Fin 0))],
      JObj [(''ticker'', JStr ''C''), (''qty'', JNum (Fin 1)),
            (''avg_price'', JNum (Fin 1)), (''current_price'', JNum (Fin 1)),
            (''market_value'', JNum (Fin 1)), (''unrealized_pl'', JNum (Fin 0))],
      JObj [(''ticker'', JStr ''A''), (''qty'', JNum (Fin 9007199254740992)),
            (''avg_price'', JNum (Fin 1)), (''current_price'', JNum (Fin 1)),
            (''market_value'', JNum (Fin 9007199254740992)), (''unrealized_pl'', JNum (Fin 0))]]
   = Inr \<lparr>shown_portfolioValue = Fin 9007199254740994, shown_portfolioPct = Fin 0,
          shown_portfolioUp = True, shown_oneTicker = None\<rparr>"
  by (simp add: renderKpis_def get_prop_def js_or_def ToNumber_def truthy_num_def is_zero_def
        js_ge_def val_def mk_num_def round_mag_def round_half_even_def ilog2_def scale2_def Let_def)

end
